theory Spec2Isabelle
  imports Complex_Main "HOL-Library.AList"
begin

section \<open>Data model (app/models.py)\<close>

text \<open>
  Python values that travel through contexts, parameters and tool results are modelled as
  JSON-like values; a dict is an association list in insertion order. Timestamps, printing
  and progress broadcasts have no influence on the properties below and are left out of
  the records.
\<close>

datatype pyval =
    PNone
  | PBool bool
  | PInt int
  | PFloat real
  | PStr string
  | PList "pyval list"
  | PDict "(string \<times> pyval) list"

type_synonym pydict = "(string \<times> pyval) list"

datatype TaskStatus =
    PENDING | ANALYZING | PLANNING | EXECUTING | WAITING | RETRYING
  | INTERRUPTED | VALIDATING | COMPLETED | FAILED

datatype StepStatus =
    STEP_PENDING | STEP_IN_PROGRESS | STEP_COMPLETED | STEP_FAILED | STEP_SKIPPED

datatype error =
    StateTransitionError TaskStatus TaskStatus
  | ExecutionError string
  | HumanInterruptionRequired string pydict
  | PyException string

record ExecutionStep =
  step_id :: string
  description :: string
  action_type :: string
  parameters :: pydict
  dependencies :: "string list"
  status :: StepStatus
  result :: "pyval option"
  step_error :: "string option"
  retry_count :: int
  max_retries :: int

record OutcomeDefinition =
  original_goal :: string
  success_criteria :: "string list"
  domain :: string
  constraints :: pydict

record TaskState =
  task_id :: string
  user_id :: string
  task_status :: TaskStatus
  outcome :: "OutcomeDefinition option"
  plan :: "ExecutionStep list"
  current_step_index :: nat
  task_context :: pydict
  history :: "pydict list"
  interrupt_reason :: "string option"
  interrupt_data :: "pydict option"

text \<open>The module-level table \<^verbatim>\<open>STATE_TRANSITIONS\<close>: a dict, so a status may have no entry.\<close>

fun STATE_TRANSITIONS :: "TaskStatus \<Rightarrow> TaskStatus list option" where
  "STATE_TRANSITIONS PENDING = Some [ANALYZING]"
| "STATE_TRANSITIONS ANALYZING = Some [PLANNING, INTERRUPTED, FAILED]"
| "STATE_TRANSITIONS PLANNING = Some [EXECUTING, INTERRUPTED, FAILED]"
| "STATE_TRANSITIONS EXECUTING = Some [WAITING, RETRYING, VALIDATING, INTERRUPTED, FAILED]"
| "STATE_TRANSITIONS WAITING = Some [EXECUTING, INTERRUPTED]"
| "STATE_TRANSITIONS RETRYING = Some [EXECUTING, FAILED]"
| "STATE_TRANSITIONS INTERRUPTED = Some [EXECUTING, FAILED]"
| "STATE_TRANSITIONS VALIDATING = Some [COMPLETED, EXECUTING, FAILED]"
| "STATE_TRANSITIONS COMPLETED = None"
| "STATE_TRANSITIONS FAILED = None"

text \<open>
  \<^verbatim>\<open>AgentOrchestrator._transition_state\<close>. The function mutates the task, so the model
  returns the task as it is afterwards together with the exception raised, if any.
\<close>

definition transition_state :: "TaskState \<Rightarrow> TaskStatus \<Rightarrow> error option \<times> TaskState" where
  "transition_state task new_state =
     (let allowed = (case STATE_TRANSITIONS (task_status task) of None \<Rightarrow> [] | Some l \<Rightarrow> l)
      in if new_state \<notin> set allowed
         then (Some (StateTransitionError (task_status task) new_state), task)
         else (None, task\<lparr>task_status := new_state\<rparr>))"

text \<open>The transition table as the specification prints it (section 4.1), as a list of pairs.\<close>

definition spec_transition_table :: "(TaskStatus \<times> TaskStatus) list" where
  "spec_transition_table =
     [(PENDING, ANALYZING),
      (ANALYZING, PLANNING), (ANALYZING, INTERRUPTED), (ANALYZING, FAILED),
      (PLANNING, EXECUTING), (PLANNING, INTERRUPTED), (PLANNING, FAILED),
      (EXECUTING, WAITING), (EXECUTING, RETRYING), (EXECUTING, VALIDATING),
      (EXECUTING, INTERRUPTED), (EXECUTING, FAILED),
      (WAITING, EXECUTING), (WAITING, INTERRUPTED),
      (RETRYING, EXECUTING), (RETRYING, FAILED),
      (INTERRUPTED, EXECUTING), (INTERRUPTED, FAILED),
      (VALIDATING, COMPLETED), (VALIDATING, EXECUTING), (VALIDATING, FAILED)]"

section \<open>Circuit breaker (app/retry\_engine.py)\<close>

text \<open>
  The three dicts of \<^verbatim>\<open>CircuitBreaker\<close> are maps keyed by the service (action type).
  \<^verbatim>\<open>time.time()\<close> is read by the caller and passed in as \<open>now\<close>.
\<close>

record CircuitBreaker =
  failure_threshold :: int
  recovery_timeout :: int
  failures :: "string \<rightharpoonup> int"
  last_failure_time :: "string \<rightharpoonup> real"
  state :: "string \<rightharpoonup> string"

definition CircuitBreaker_init :: CircuitBreaker where
  "CircuitBreaker_init =
     \<lparr>failure_threshold = 5, recovery_timeout = 300,
      failures = Map.empty, last_failure_time = Map.empty, state = Map.empty\<rparr>"

text \<open>\<^verbatim>\<open>d.get(k, 0)\<close> on the two numeric dicts.\<close>

definition failures_get :: "CircuitBreaker \<Rightarrow> string \<Rightarrow> int" where
  "failures_get cb service = (case failures cb service of None \<Rightarrow> 0 | Some n \<Rightarrow> n)"

definition last_failure_get :: "CircuitBreaker \<Rightarrow> string \<Rightarrow> real" where
  "last_failure_get cb service = (case last_failure_time cb service of None \<Rightarrow> 0 | Some t \<Rightarrow> t)"

definition is_open :: "CircuitBreaker \<Rightarrow> string \<Rightarrow> real \<Rightarrow> bool \<times> CircuitBreaker" where
  "is_open cb service now =
     (if service \<notin> dom (state cb) then (False, cb)
      else if state cb service = Some ''open'' then
        (let last_fail = last_failure_get cb service
         in if now - last_fail > real_of_int (recovery_timeout cb)
            then (False, cb\<lparr>state := (state cb)(service \<mapsto> ''half-open'')\<rparr>)
            else (True, cb))
      else (False, cb))"

definition record_success :: "CircuitBreaker \<Rightarrow> string \<Rightarrow> CircuitBreaker" where
  "record_success cb service =
     (let cb1 = cb\<lparr>failures := (failures cb)(service \<mapsto> max 0 (failures_get cb service - 1))\<rparr>
      in if service \<in> dom (state cb1) \<and> state cb1 service = Some ''half-open''
         then cb1\<lparr>state := (state cb1)(service \<mapsto> ''closed'')\<rparr>
         else cb1)"

definition record_failure :: "CircuitBreaker \<Rightarrow> string \<Rightarrow> real \<Rightarrow> CircuitBreaker" where
  "record_failure cb service now =
     (let cb1 = cb\<lparr>failures := (failures cb)(service \<mapsto> failures_get cb service + 1),
                    last_failure_time := (last_failure_time cb)(service \<mapsto> now)\<rparr>
      in if failures_get cb1 service \<ge> failure_threshold cb1
         then cb1\<lparr>state := (state cb1)(service \<mapsto> ''open'')\<rparr>
         else cb1)"

text \<open>A sequence of calls on one breaker, for statements about histories of calls.\<close>

datatype breaker_call = IsOpen real | RecordSuccess | RecordFailure real

fun breaker_step :: "string \<Rightarrow> breaker_call \<Rightarrow> CircuitBreaker \<Rightarrow> CircuitBreaker" where
  "breaker_step service (IsOpen now) cb = snd (is_open cb service now)"
| "breaker_step service RecordSuccess cb = record_success cb service"
| "breaker_step service (RecordFailure now) cb = record_failure cb service now"

definition breaker_run :: "string \<Rightarrow> breaker_call list \<Rightarrow> CircuitBreaker \<Rightarrow> CircuitBreaker" where
  "breaker_run service calls cb = fold (breaker_step service) calls cb"

section \<open>Strings\<close>

text \<open>
  Python strings are modelled as lists of 8-bit characters. \<^verbatim>\<open>str.lower\<close> is modelled on
  the ASCII letters, which is all the keyword tests below depend on.
\<close>

definition startswith :: "string \<Rightarrow> string \<Rightarrow> bool" where
  "startswith s p = (take (length p) s = p)"

definition endswith :: "string \<Rightarrow> string \<Rightarrow> bool" where
  "endswith s p = (length p \<le> length s \<and> drop (length s - length p) s = p)"

text \<open>\<^verbatim>\<open>x in s\<close> on strings: \<open>x\<close> occurs in \<open>s\<close> as a contiguous substring.\<close>

fun py_in :: "string \<Rightarrow> string \<Rightarrow> bool" where
  "py_in x [] = (x = [])"
| "py_in x (c # cs) = (startswith (c # cs) x \<or> py_in x cs)"

definition lower_char :: "char \<Rightarrow> char" where
  "lower_char c =
     (case map_of (zip ''ABCDEFGHIJKLMNOPQRSTUVWXYZ'' ''abcdefghijklmnopqrstuvwxyz'') c of
        None \<Rightarrow> c | Some d \<Rightarrow> d)"

definition lower :: "string \<Rightarrow> string" where
  "lower s = map lower_char s"

text \<open>\<^verbatim>\<open>str(n)\<close> for a non-negative integer, by structural recursion on a digit budget.\<close>

definition digit_char :: "nat \<Rightarrow> char" where
  "digit_char d = (''0123456789'' ! (d mod 10))"

fun digits_of :: "nat \<Rightarrow> nat \<Rightarrow> string" where
  "digits_of 0 n = []"
| "digits_of (Suc k) n =
     (if n < 10 then [digit_char n] else digits_of k (n div 10) @ [digit_char n])"

definition str_nat :: "nat \<Rightarrow> string" where
  "str_nat n = digits_of (Suc n) n"

section \<open>Template parameters (app/executor.py)\<close>

text \<open>
  \<^verbatim>\<open>ExecutorEngine._resolve_parameters\<close>. The regular expression
  \<^verbatim>\<open>\{\{(\w+)\}\}\<close> is matched by \<open>match_template\<close> at one position (the greedy run of word
  characters is the only candidate, since a brace is no word character), and
  \<open>re_sub_templates\<close> is \<^verbatim>\<open>re.sub\<close> for it: it scans from the left, replaces a match and
  skips over the text the match covered. \<^verbatim>\<open>str\<close> on an arbitrary value is the parameter
  \<open>py_str\<close>. A parameter dict keeps its keys in order.
\<close>

definition is_word_char :: "char \<Rightarrow> bool" where
  "is_word_char c = (c \<in> set ''abcdefghijklmnopqrstuvwxyzABCDEFGHIJKLMNOPQRSTUVWXYZ0123456789_'')"

definition match_template :: "string \<Rightarrow> string option" where
  "match_template s =
     (if startswith s ''{{'' then
        (let body = drop 2 s;
             var = takeWhile is_word_char body;
             rest = dropWhile is_word_char body
         in if var \<noteq> [] \<and> startswith rest ''}}'' then Some var else None)
      else None)"

fun re_sub_templates :: "(string \<Rightarrow> string) \<Rightarrow> nat \<Rightarrow> string \<Rightarrow> string" where
  "re_sub_templates repl skip [] = []"
| "re_sub_templates repl (Suc skip) (c # cs) = re_sub_templates repl skip cs"
| "re_sub_templates repl 0 (c # cs) =
     (case match_template (c # cs) of
        Some var \<Rightarrow> repl var @ re_sub_templates repl (length var + 3) cs
      | None \<Rightarrow> c # re_sub_templates repl 0 cs)"

definition context_get :: "pydict \<Rightarrow> string \<Rightarrow> pyval" where
  "context_get ctx k = (case map_of ctx k of None \<Rightarrow> PNone | Some v \<Rightarrow> v)"

definition replace_var :: "(pyval \<Rightarrow> string) \<Rightarrow> pydict \<Rightarrow> string \<Rightarrow> string" where
  "replace_var py_str ctx var_name =
     (case map_of ctx var_name of
        None \<Rightarrow> ''{{'' @ var_name @ ''}}''
      | Some v \<Rightarrow> py_str v)"

definition slice_2_m2 :: "string \<Rightarrow> string" where
  "slice_2_m2 s = drop 2 (take (length s - 2) s)"

definition resolve_item :: "pydict \<Rightarrow> pyval \<Rightarrow> pyval" where
  "resolve_item ctx item =
     (case item of
        PStr s \<Rightarrow> if startswith s ''{{'' \<and> endswith s ''}}''
                  then context_get ctx (slice_2_m2 s) else item
      | _ \<Rightarrow> item)"

fun resolve_value :: "(pyval \<Rightarrow> string) \<Rightarrow> pydict \<Rightarrow> pyval \<Rightarrow> pyval" where
  "resolve_value py_str ctx (PStr v) =
     (if startswith v ''{{'' \<and> endswith v ''}}'' then context_get ctx (slice_2_m2 v)
      else if py_in ''{{'' v \<and> py_in ''}}'' v
      then PStr (re_sub_templates (replace_var py_str ctx) 0 v)
      else PStr v)"
| "resolve_value py_str ctx (PDict d) =
     PDict (map (\<lambda>kv. (fst kv, resolve_value py_str ctx (snd kv))) d)"
| "resolve_value py_str ctx (PList items) = PList (map (resolve_item ctx) items)"
| "resolve_value py_str ctx v = v"

definition resolve_parameters :: "(pyval \<Rightarrow> string) \<Rightarrow> pydict \<Rightarrow> pydict \<Rightarrow> pydict" where
  "resolve_parameters py_str params ctx =
     map (\<lambda>kv. (fst kv, resolve_value py_str ctx (snd kv))) params"

section \<open>Retry engine (app/retry\_engine.py)\<close>

datatype RetryStrategy =
    IMMEDIATE | EXPONENTIAL | LINEAR | CIRCUIT_BREAK | ALTERNATIVE | HUMAN_ESCALATE

text \<open>
  \<^verbatim>\<open>RetryEngine._select_strategy\<close>; \<open>error\<close> is \<^verbatim>\<open>str(error)\<close>. The \<^verbatim>\<open>step\<close> argument of
  the source is not read by it and is left out.
\<close>

definition select_strategy :: "string \<Rightarrow> nat \<Rightarrow> RetryStrategy" where
  "select_strategy error attempt =
     (let error_str = lower error in
      if list_ex (\<lambda>x. py_in x error_str)
           [''timeout'', ''connection'', ''network'', ''503'', ''502'', ''504'']
      then EXPONENTIAL
      else if list_ex (\<lambda>x. py_in x error_str) [''rate limit'', ''429'', ''too many requests'']
      then EXPONENTIAL
      else if list_ex (\<lambda>x. py_in x error_str)
           [''auth'', ''unauthorized'', ''401'', ''403'', ''forbidden'']
      then (if attempt < 2 then IMMEDIATE else HUMAN_ESCALATE)
      else if list_ex (\<lambda>x. py_in x error_str)
           [''not found'', ''404'', ''unavailable'', ''no longer available'']
      then ALTERNATIVE
      else if list_ex (\<lambda>x. py_in x error_str)
           [''insufficient funds'', ''invalid'', ''rejected'', ''declined'']
      then HUMAN_ESCALATE
      else if list_ex (\<lambda>x. py_in x error_str)
           [''temporarily'', ''unavailable'', ''maintenance'', ''busy'']
      then EXPONENTIAL
      else EXPONENTIAL)"

text \<open>
  \<^verbatim>\<open>RetryEngine._calculate_delay\<close> with \<^verbatim>\<open>base_delay = 2.0\<close>; \<open>rnd\<close> is the value that
  \<^verbatim>\<open>random.random()\<close> returns, \<open>timeout\<close> the breaker's recovery timeout.
\<close>

definition base_delay :: real where
  "base_delay = 2"

definition calculate_delay :: "int \<Rightarrow> real \<Rightarrow> RetryStrategy \<Rightarrow> nat \<Rightarrow> real" where
  "calculate_delay timeout rnd strategy attempt =
     (if strategy = IMMEDIATE then 0.5
      else if strategy = EXPONENTIAL then
        (let delay = (2 ^ attempt) * base_delay;
             jitter = delay * 0.25 * (2 * rnd - 1)
         in delay + jitter)
      else if strategy = LINEAR then real attempt * base_delay
      else if strategy = CIRCUIT_BREAK then real_of_int timeout
      else base_delay)"

section \<open>External collaborators and the observable effects\<close>

text \<open>
  The collaborators of section 6 are not part of the core. They are taken as the fields of
  an environment; each is consulted with the current \<open>tick\<close> of the world, which is
  advanced at every consultation, so that two calls with equal arguments may answer
  differently. \<open>tools\<close> stands for the handler that \<^verbatim>\<open>ToolRegistry.get_handler\<close> returns,
  run under \<^verbatim>\<open>asyncio.wait_for\<close>; \<open>has_handler\<close> tells whether \<^verbatim>\<open>get_handler\<close> finds one.
\<close>

datatype handler_outcome =
    Returned pydict
  | TimedOut
  | Interrupts string pydict
  | Raises string

record env =
  has_handler :: "string \<Rightarrow> bool"
  tools :: "nat \<Rightarrow> string \<Rightarrow> pydict \<Rightarrow> handler_outcome"
  clock :: "nat \<Rightarrow> real"
  random :: "nat \<Rightarrow> real"
  builtin_str :: "pyval \<Rightarrow> string"
  interpreter_interpret :: "nat \<Rightarrow> pyval \<Rightarrow> pydict \<Rightarrow> error + OutcomeDefinition"
  planner_create_plan :: "nat \<Rightarrow> OutcomeDefinition option \<Rightarrow> pydict \<Rightarrow> error + ExecutionStep list"
  planner_replan :: "nat \<Rightarrow> TaskState \<Rightarrow> nat \<Rightarrow> string \<Rightarrow> error + ExecutionStep list"
  validate_completion ::
    "nat \<Rightarrow> OutcomeDefinition option \<Rightarrow> pydict \<Rightarrow> pydict list \<Rightarrow> error + pydict"

datatype sleep = BreakerWait real | RetryDelay real

text \<open>Whether a sleep is the delay before a retry.\<close>

definition is_retry_delay :: "sleep \<Rightarrow> bool" where
  "is_retry_delay s = (case s of RetryDelay d \<Rightarrow> True | BreakerWait d \<Rightarrow> False)"

text \<open>
  The world: the engine's circuit breaker, the tick, the log of handler invocations
  (step id, action type, resolved parameters, what the handler did) and the log of
  \<^verbatim>\<open>asyncio.sleep\<close> calls.
\<close>

record world =
  breaker :: CircuitBreaker
  tick :: nat
  invocations :: "(string \<times> string \<times> pydict \<times> handler_outcome) list"
  sleeps :: "sleep list"

definition world_init :: world where
  "world_init = \<lparr>breaker = CircuitBreaker_init, tick = 0, invocations = [], sleeps = []\<rparr>"

text \<open>\<^verbatim>\<open>str(e)\<close> of an exception; the arrow of the transition message is U+2192 in UTF-8.\<close>

fun status_value :: "TaskStatus \<Rightarrow> string" where
  "status_value PENDING = ''pending''"
| "status_value ANALYZING = ''analyzing''"
| "status_value PLANNING = ''planning''"
| "status_value EXECUTING = ''executing''"
| "status_value WAITING = ''waiting''"
| "status_value RETRYING = ''retrying''"
| "status_value INTERRUPTED = ''interrupted''"
| "status_value VALIDATING = ''validating''"
| "status_value COMPLETED = ''completed''"
| "status_value FAILED = ''failed''"

fun error_str :: "error \<Rightarrow> string" where
  "error_str (StateTransitionError old new) =
     ''Invalid transition: '' @ status_value old @ [CHR '' '', CHR 0xE2, CHR 0x86, CHR 0x92, CHR '' '']
       @ status_value new"
| "error_str (ExecutionError msg) = msg"
| "error_str (HumanInterruptionRequired reason data) = reason"
| "error_str (PyException msg) = msg"

section \<open>Step execution (app/executor.py)\<close>

text \<open>\<^verbatim>\<open>d.get(k, {})\<close>.\<close>

definition get_or_empty :: "pydict \<Rightarrow> string \<Rightarrow> pyval" where
  "get_or_empty d k = (case map_of d k of None \<Rightarrow> PDict [] | Some v \<Rightarrow> v)"

text \<open>
  \<^verbatim>\<open>ExecutorEngine.execute_step\<close>. It returns the dict of the source or the exception it
  raises, the step as mutated, and the world.
\<close>

definition execute_step ::
  "env \<Rightarrow> world \<Rightarrow> ExecutionStep \<Rightarrow> pydict \<Rightarrow> (error + pydict) \<times> ExecutionStep \<times> world" where
  "execute_step e w step ctx =
     (let step1 = step\<lparr>status := STEP_IN_PROGRESS\<rparr> in
      if \<not> has_handler e (action_type step1) then
        (let msg = ''Tool '' @ [CHR 0x27] @ action_type step1 @ [CHR 0x27] @ '' not found'' in
         (Inl (ExecutionError (''Step '' @ step_id step1 @ '' failed: '' @ msg)),
          step1\<lparr>status := STEP_FAILED, step_error := Some msg\<rparr>, w))
      else
        (let params = resolve_parameters (builtin_str e) (parameters step1) ctx;
             out = tools e (tick w) (action_type step1) params;
             w1 = w\<lparr>tick := tick w + 1,
                    invocations := invocations w @ [(step_id step1, action_type step1, params, out)]\<rparr>
         in case out of
              Returned res \<Rightarrow>
                (Inr [(''success'', PBool True), (''result'', PDict res),
                      (''context_updates'', get_or_empty res ''context_updates'')],
                 step1\<lparr>status := STEP_COMPLETED, result := Some (PDict res)\<rparr>, w1)
            | TimedOut \<Rightarrow>
                (Inl (ExecutionError (''Step '' @ step_id step1 @ '' timed out'')),
                 step1\<lparr>status := STEP_FAILED,
                        step_error := Some ''Step execution timed out (5 minutes)''\<rparr>, w1)
            | Interrupts reason data \<Rightarrow>
                (Inl (HumanInterruptionRequired reason data), step1, w1)
            | Raises msg \<Rightarrow>
                (Inl (ExecutionError (''Step '' @ step_id step1 @ '' failed: '' @ msg)),
                 step1\<lparr>status := STEP_FAILED, step_error := Some msg\<rparr>, w1)))"

section \<open>Retry loop (app/retry\_engine.py)\<close>

text \<open>The three shapes of the dict that \<^verbatim>\<open>execute_with_retry\<close> returns.\<close>

datatype retry_result =
    Success pydict int
  | NeedsReplan string int
  | Exhausted string int

type_synonym executor =
  "world \<Rightarrow> ExecutionStep \<Rightarrow> pydict \<Rightarrow> (error + pydict) \<times> ExecutionStep \<times> world"

text \<open>
  The body of \<^verbatim>\<open>for attempt in range(step.max_retries + 1)\<close>: \<open>remaining\<close> counts the
  iterations still to run, \<open>attempt\<close> is the loop variable, \<open>last_error\<close> is
  \<^verbatim>\<open>str(last_error)\<close>. \<open>breaker_gate\<close> is the breaker check with its wait,
  \<open>note_failure\<close> is \<^verbatim>\<open>record_failure\<close>, \<open>backoff\<close> the sleep before the next attempt; the
  calls that read \<^verbatim>\<open>time.time()\<close> or \<^verbatim>\<open>random.random()\<close> take the value at the current tick.
\<close>

definition breaker_gate :: "env \<Rightarrow> string \<Rightarrow> world \<Rightarrow> world" where
  "breaker_gate e service_name w =
     (let (opn, cb1) = is_open (breaker w) service_name (clock e (tick w));
          w1 = w\<lparr>breaker := cb1, tick := tick w + 1\<rparr>
      in if opn
         then w1\<lparr>sleeps := sleeps w1 @ [BreakerWait (real_of_int (recovery_timeout cb1))]\<rparr>
         else w1)"

definition note_failure :: "env \<Rightarrow> string \<Rightarrow> world \<Rightarrow> world" where
  "note_failure e service_name w =
     w\<lparr>breaker := record_failure (breaker w) service_name (clock e (tick w)),
       tick := tick w + 1\<rparr>"

definition backoff :: "env \<Rightarrow> RetryStrategy \<Rightarrow> nat \<Rightarrow> world \<Rightarrow> world" where
  "backoff e strategy attempt w =
     (let delay = calculate_delay (recovery_timeout (breaker w)) (random e (tick w))
                    strategy attempt
      in w\<lparr>tick := tick w + 1, sleeps := sleeps w @ [RetryDelay delay]\<rparr>)"

fun retry_from ::
  "env \<Rightarrow> executor \<Rightarrow> pydict \<Rightarrow> string \<Rightarrow> nat \<Rightarrow> nat \<Rightarrow> string \<Rightarrow> world \<Rightarrow> ExecutionStep
     \<Rightarrow> (error + retry_result) \<times> ExecutionStep \<times> world" where
  "retry_from e ex ctx service_name 0 attempt last_error w step =
     (Inr (Exhausted last_error (max_retries step + 1)), step, w)"
| "retry_from e ex ctx service_name (Suc remaining) attempt last_error w step =
     (case ex (breaker_gate e service_name w) (step\<lparr>retry_count := int attempt\<rparr>) ctx of
        (Inr res, step2, w3) \<Rightarrow>
          (Inr (Success res (int attempt + 1)), step2,
           w3\<lparr>breaker := record_success (breaker w3) service_name\<rparr>)
      | (Inl (HumanInterruptionRequired reason data), step2, w3) \<Rightarrow>
          (Inl (HumanInterruptionRequired reason data), step2, w3)
      | (Inl err, step2, w3) \<Rightarrow>
          (let w4 = note_failure e service_name w3;
               strategy = select_strategy (error_str err) attempt
           in if strategy = HUMAN_ESCALATE then
                (Inl (HumanInterruptionRequired
                       (''Step failed after '' @ str_nat (attempt + 1) @ '' attempts: ''
                          @ error_str err)
                       [(''step'', PStr (step_id step2)), (''error'', PStr (error_str err)),
                        (''context'', PDict ctx)]),
                 step2, w4)
              else if strategy = ALTERNATIVE then
                (Inr (NeedsReplan (error_str err) (int attempt + 1)), step2, w4)
              else if int attempt < max_retries step2 then
                retry_from e ex ctx service_name remaining (attempt + 1) (error_str err)
                  (backoff e strategy attempt w4) step2
              else
                retry_from e ex ctx service_name remaining (attempt + 1) (error_str err)
                  w4 step2))"

definition execute_with_retry ::
  "env \<Rightarrow> executor \<Rightarrow> world \<Rightarrow> ExecutionStep \<Rightarrow> pydict
     \<Rightarrow> (error + retry_result) \<times> ExecutionStep \<times> world" where
  "execute_with_retry e ex w step ctx =
     retry_from e ex ctx (action_type step) (nat (max_retries step + 1)) 0 ''None'' w step"

section \<open>Plan execution by waves (app/executor.py)\<close>

text \<open>
  \<^verbatim>\<open>dict.update\<close> with the value found under \<^verbatim>\<open>context_updates\<close>: an assignment per key,
  which replaces the value of a key in place and appends a new key. A tool's context
  updates are a dict (section 6); for any other value the model raises the \<^verbatim>\<open>TypeError\<close>
  that \<^verbatim>\<open>dict.update\<close> raises on a value that is no mapping and no iterable of pairs.
\<close>

definition dict_update :: "pydict \<Rightarrow> pyval \<Rightarrow> error + pydict" where
  "dict_update d v =
     (case v of
        PDict u \<Rightarrow> Inr (fold (\<lambda>kv acc. AList.update (fst kv) (snd kv) acc) u d)
      | _ \<Rightarrow> Inl (PyException ''TypeError''))"

text \<open>
  \<^verbatim>\<open>repr\<close> of a string and of a list of strings, as the f-strings of the deadlock message
  print them: single quotes, or double quotes when the string holds a single quote and no
  double quote. Escapes of backslashes and unprintable characters are not modelled.
\<close>

definition py_repr_str :: "string \<Rightarrow> string" where
  "py_repr_str s =
     (if CHR 0x27 \<in> set s \<and> CHR 0x22 \<notin> set s then [CHR 0x22] @ s @ [CHR 0x22]
      else [CHR 0x27] @ s @ [CHR 0x27])"

fun join_comma :: "string list \<Rightarrow> string" where
  "join_comma [] = []"
| "join_comma [x] = x"
| "join_comma (x # y # ys) = x @ '', '' @ join_comma (y # ys)"

definition py_repr_list :: "string list \<Rightarrow> string" where
  "py_repr_list xs = ''['' @ join_comma (map py_repr_str xs) @ '']''"

definition pending_info :: "ExecutionStep list \<Rightarrow> string list" where
  "pending_info pending =
     map (\<lambda>s. step_id s @ '' (depends on: '' @ py_repr_list (dependencies s) @ '')'') pending"

definition deadlock_message :: "ExecutionStep list \<Rightarrow> string" where
  "deadlock_message pending = ''Deadlock detected: '' @ py_repr_list (pending_info pending)"

text \<open>The two dicts that \<^verbatim>\<open>ExecutorEngine.execute_plan\<close> returns.\<close>

datatype plan_outcome =
    PlanSuccess pydict nat
  | PlanFailure ExecutionStep error nat

text \<open>
  \<^verbatim>\<open>step_index_map.get(step.id, 0)\<close>: the dict comprehension keeps the last index of an id.
\<close>

definition step_index_map :: "ExecutionStep list \<Rightarrow> string \<Rightarrow> nat" where
  "step_index_map steps sid =
     (case filter (\<lambda>i. step_id (steps ! i) = sid) [0..<length steps] of
        [] \<Rightarrow> 0
      | i # is \<Rightarrow> last (i # is))"

text \<open>The list comprehension of the ready steps, as positions in the plan.\<close>

definition ready_indices :: "ExecutionStep list \<Rightarrow> string list \<Rightarrow> nat list" where
  "ready_indices steps completed_steps =
     filter (\<lambda>i. step_id (steps ! i) \<notin> set completed_steps
                 \<and> status (steps ! i) \<noteq> STEP_COMPLETED
                 \<and> (\<forall>dep \<in> set (dependencies (steps ! i)). dep \<in> set completed_steps))
       [0..<length steps]"

text \<open>
  \<^verbatim>\<open>asyncio.gather(..., return_exceptions=True)\<close> over the coroutines of the ready steps:
  every one of them is run by \<open>execute_step\<close> against the context as it is when the wave
  starts (the context is only written after the gather), and its result or exception is
  collected. The interleaving of the handlers is not modelled; the handlers are consulted
  in the order of the ready list.
\<close>

fun gather_steps ::
  "env \<Rightarrow> pydict \<Rightarrow> (nat \<times> ExecutionStep) list \<Rightarrow> world
     \<Rightarrow> (nat \<times> ExecutionStep \<times> (error + pydict)) list \<times> world" where
  "gather_steps e ctx [] w = ([], w)"
| "gather_steps e ctx ((i, step) # rest) w =
     (case execute_step e w step ctx of
        (r, step1, w1) \<Rightarrow>
          (case gather_steps e ctx rest w1 of
             (rs, w2) \<Rightarrow> ((i, step1, r) # rs, w2)))"

text \<open>The steps are objects of the plan: what \<open>execute_step\<close> did to them shows in the plan.\<close>

definition write_back ::
  "(nat \<times> ExecutionStep \<times> (error + pydict)) list \<Rightarrow> ExecutionStep list \<Rightarrow> ExecutionStep list" where
  "write_back results steps = fold (\<lambda>r p. p[fst r := fst (snd r)]) results steps"

text \<open>
  The loop over \<^verbatim>\<open>zip(tasks, results)\<close>. It stops at the first exception with the failure
  dict; a \<^verbatim>\<open>dict.update\<close> that raises leaves the function as an exception.
\<close>

fun process_results ::
  "ExecutionStep list \<Rightarrow> (nat \<times> ExecutionStep \<times> (error + pydict)) list \<Rightarrow> ExecutionStep list
     \<Rightarrow> string list \<Rightarrow> pydict
     \<Rightarrow> (error + plan_outcome) option \<times> ExecutionStep list \<times> string list \<times> pydict" where
  "process_results plan0 [] steps completed_steps ctx = (None, steps, completed_steps, ctx)"
| "process_results plan0 ((i, step, Inl err) # rest) steps completed_steps ctx =
     (let failed = step\<lparr>status := STEP_FAILED, step_error := Some (error_str err)\<rparr>
      in (Some (Inr (PlanFailure failed err (step_index_map plan0 (step_id step)))),
          steps[i := failed], completed_steps, ctx))"
| "process_results plan0 ((i, step, Inr res) # rest) steps completed_steps ctx =
     (case dict_update ctx (get_or_empty res ''context_updates'') of
        Inl err \<Rightarrow> (Some (Inl err), steps, List.insert (step_id step) completed_steps, ctx)
      | Inr ctx1 \<Rightarrow>
          process_results plan0 rest steps (List.insert (step_id step) completed_steps) ctx1)"

text \<open>
  \<^verbatim>\<open>ExecutorEngine.execute_plan\<close>. The \<^verbatim>\<open>while\<close> loop is given a fuel; each round that
  goes on adds a step id to the set of completed steps, so \<open>Suc (length steps)\<close> rounds are
  never used up (lemma \<open>execute_plan_returns\<close>). The result is the dict returned or the
  exception raised, with the plan, the context and the world as they are left.
\<close>

fun execute_plan_loop ::
  "nat \<Rightarrow> env \<Rightarrow> world \<Rightarrow> ExecutionStep list \<Rightarrow> string list \<Rightarrow> pydict
     \<Rightarrow> ((error + plan_outcome) \<times> ExecutionStep list \<times> pydict \<times> world) option" where
  "execute_plan_loop 0 e w steps completed_steps ctx = None"
| "execute_plan_loop (Suc fuel) e w steps completed_steps ctx =
     (if \<not> length completed_steps < length steps
      then Some (Inr (PlanSuccess ctx (length completed_steps)), steps, ctx, w)
      else
        (let ready = ready_indices steps completed_steps in
         if ready = [] then
           (let pending = filter (\<lambda>s. step_id s \<notin> set completed_steps) steps in
            if pending \<noteq> []
            then Some (Inl (ExecutionError (deadlock_message pending)), steps, ctx, w)
            else Some (Inr (PlanSuccess ctx (length completed_steps)), steps, ctx, w))
         else
           (case gather_steps e ctx (map (\<lambda>i. (i, steps ! i)) ready) w of
              (results, w1) \<Rightarrow>
                (case process_results steps results (write_back results steps)
                        completed_steps ctx of
                   (Some out, plan2, completed2, ctx2) \<Rightarrow> Some (out, plan2, ctx2, w1)
                 | (None, plan2, completed2, ctx2) \<Rightarrow>
                     execute_plan_loop fuel e w1 plan2 completed2 ctx2))))"

definition execute_plan ::
  "env \<Rightarrow> world \<Rightarrow> ExecutionStep list \<Rightarrow> pydict
     \<Rightarrow> ((error + plan_outcome) \<times> ExecutionStep list \<times> pydict \<times> world) option" where
  "execute_plan e w steps ctx = execute_plan_loop (Suc (length steps)) e w steps [] ctx"

section \<open>Orchestrator (app/orchestrator.py)\<close>

text \<open>
  Truth value of a Python value, \<^verbatim>\<open>d[k] = v\<close>, and the two operations on the replan counter:
  \<^verbatim>\<open>replan_count >= 3\<close>, which raises \<^verbatim>\<open>TypeError\<close> on a value that is no number, and
  \<^verbatim>\<open>replan_count + 1\<close>.
\<close>

fun truthy :: "pyval \<Rightarrow> bool" where
  "truthy PNone = False"
| "truthy (PBool b) = b"
| "truthy (PInt n) = (n \<noteq> 0)"
| "truthy (PFloat x) = (x \<noteq> 0)"
| "truthy (PStr s) = (s \<noteq> [])"
| "truthy (PList xs) = (xs \<noteq> [])"
| "truthy (PDict d) = (d \<noteq> [])"

definition dict_set :: "pydict \<Rightarrow> string \<Rightarrow> pyval \<Rightarrow> pydict" where
  "dict_set d k v = AList.update k v d"

fun py_ge3 :: "pyval \<Rightarrow> error + bool" where
  "py_ge3 (PInt n) = Inr (3 \<le> n)"
| "py_ge3 (PFloat x) = Inr (3 \<le> x)"
| "py_ge3 (PBool b) = Inr False"
| "py_ge3 v = Inl (PyException ''TypeError'')"

fun py_add1 :: "pyval \<Rightarrow> pyval" where
  "py_add1 (PInt n) = PInt (n + 1)"
| "py_add1 (PFloat x) = PFloat (x + 1)"
| "py_add1 (PBool b) = PInt (if b then 2 else 1)"
| "py_add1 v = v"

definition replan_count_of :: "pydict \<Rightarrow> pyval" where
  "replan_count_of ctx = (case map_of ctx ''_replan_count'' of None \<Rightarrow> PInt 0 | Some v \<Rightarrow> v)"

text \<open>\<^verbatim>\<open>_handle_interruption\<close> and \<^verbatim>\<open>_request_clarification\<close>.\<close>

definition handle_interruption :: "TaskState \<Rightarrow> string \<Rightarrow> pydict \<Rightarrow> TaskState" where
  "handle_interruption task reason data =
     (let t1 = (case transition_state task INTERRUPTED of
                  (Some err, t) \<Rightarrow> t\<lparr>task_status := INTERRUPTED\<rparr>
                | (None, t) \<Rightarrow> t)
      in t1\<lparr>interrupt_reason := Some reason, interrupt_data := Some data\<rparr>)"

definition request_clarification :: "TaskState \<Rightarrow> pyval \<Rightarrow> TaskState" where
  "request_clarification task question =
     task\<lparr>task_status := INTERRUPTED,
          interrupt_reason := Some ''clarification_needed'',
          interrupt_data := Some [(''question'', question)]\<rparr>"

text \<open>
  \<^verbatim>\<open>_build_result_summary\<close> (without the timestamp entry) and \<^verbatim>\<open>_notify_completion\<close>. The
  healthcare branch calls \<^verbatim>\<open>.get\<close> on the appointment details and so raises on a true
  value that is no dict.
\<close>

definition build_result_summary :: "TaskState \<Rightarrow> error + pydict" where
  "build_result_summary task =
     (let ctx = task_context task;
          summary =
            [(''task_id'', PStr (task_id task)),
             (''goal'', (case outcome task of
                          Some oc \<Rightarrow> PStr (original_goal oc)
                        | None \<Rightarrow> context_get ctx ''goal'')),
             (''domain'', PStr (case outcome task of Some oc \<Rightarrow> domain oc | None \<Rightarrow> ''unknown'')),
             (''total_steps'', PInt (int (length (plan task)))),
             (''completed_steps'',
                PInt (int (length (filter (\<lambda>s. status s = STEP_COMPLETED) (plan task)))))]
      in case outcome task of
           None \<Rightarrow> Inr summary
         | Some oc \<Rightarrow>
             if domain oc = ''travel'' then
               Inr (summary @
                 [(''confirmation_number'', context_get ctx ''confirmation_number''),
                  (''flight_details'', context_get ctx ''confirmation_details''),
                  (''amount_paid'', context_get ctx ''amount_paid''),
                  (''calendar_updated'',
                     (case map_of ctx ''calendar_updated'' of
                        None \<Rightarrow> PBool False | Some v \<Rightarrow> v))])
             else if domain oc = ''healthcare'' then
               (let details = context_get ctx ''appointment_details'' in
                if truthy details then
                  (case details of
                     PDict d \<Rightarrow>
                       Inr (summary @
                         [(''appointment_id'', context_get ctx ''appointment_id''),
                          (''appointment_details'', details),
                          (''provider'', context_get d ''provider'')])
                   | _ \<Rightarrow> Inl (PyException ''AttributeError''))
                else
                  Inr (summary @
                    [(''appointment_id'', context_get ctx ''appointment_id''),
                     (''appointment_details'', details),
                     (''provider'', PNone)]))
             else if domain oc = ''business'' then
               Inr (summary @
                 [(''approvals_obtained'',
                     (case map_of ctx ''approvals_obtained'' of
                        None \<Rightarrow> PBool True | Some v \<Rightarrow> v)),
                  (''final_action'',
                     (case map_of ctx ''final_action'' of
                        None \<Rightarrow> PStr ''completed'' | Some v \<Rightarrow> v))])
             else Inr summary)"

definition notify_completion :: "TaskState \<Rightarrow> pydict \<Rightarrow> error option \<times> TaskState" where
  "notify_completion task validation =
     (case build_result_summary task of
        Inl err \<Rightarrow> (Some err, task)
      | Inr summary \<Rightarrow>
          (None,
           task\<lparr>task_context :=
                  dict_set (dict_set (task_context task) ''final_result'' (PDict summary))
                    ''validation_result'' (PDict validation)\<rparr>))"

text \<open>
  One round of the \<^verbatim>\<open>while\<close> loop of \<^verbatim>\<open>_execute_plan\<close> for a step that is not yet completed:
  the step is run through the retry engine with \<open>execute_step\<close> as executor. The step is
  an object of the plan, so what the engine and the executor did to it is written back
  at its index. The round ends the loop with an exception or lets it go on.
\<close>

datatype round_result =
    Raised error TaskState world
  | GoOn TaskState world

definition run_current_step :: "env \<Rightarrow> world \<Rightarrow> TaskState \<Rightarrow> round_result" where
  "run_current_step e w task =
     (let step_idx = current_step_index task;
          step = plan task ! step_idx
      in case execute_with_retry e (execute_step e) w step (task_context task) of
           (Inl err, step1, w1) \<Rightarrow>
             Raised err (task\<lparr>plan := (plan task)[step_idx := step1]\<rparr>) w1
         | (Inr (Success res attempts), step1, w1) \<Rightarrow>
             (let task1 = task\<lparr>plan := (plan task)[step_idx := step1]\<rparr> in
              case dict_update (task_context task1) (get_or_empty res ''context_updates'') of
                Inl err \<Rightarrow> Raised err task1 w1
              | Inr ctx1 \<Rightarrow>
                  GoOn (task1\<lparr>task_context := ctx1,
                              history := history task1 @
                                [[(''step'', PInt (int step_idx)),
                                  (''action'', PStr (action_type step1)),
                                  (''result'', PStr ''success'')]],
                              current_step_index := step_idx + 1\<rparr>) w1)
         | (Inr (NeedsReplan err attempts), step1, w1) \<Rightarrow>
             (let task1 = task\<lparr>plan := (plan task)[step_idx := step1]\<rparr>;
                  w2 = w1\<lparr>tick := tick w1 + 1\<rparr>
              in case planner_replan e (tick w1) task1 step_idx err of
                   Inl ex \<Rightarrow> Raised ex task1 w2
                 | Inr new_plan \<Rightarrow> GoOn (task1\<lparr>plan := new_plan\<rparr>) w2)
         | (Inr (Exhausted err attempts), step1, w1) \<Rightarrow>
             Raised (PyException (''Step '' @ str_nat (step_idx + 1)
                        @ '' exhausted all retries: '' @ err))
               (task\<lparr>plan := (plan task)[step_idx := step1]\<rparr>) w1)"

text \<open>
  \<^verbatim>\<open>_validate_and_complete\<close> up to its call of \<^verbatim>\<open>_execute_plan\<close>: it ends with the task
  completed or failed or with an exception, or it has asked the planner for more steps
  and execution goes on. The \<^verbatim>\<open>print\<close> of the confidence as a percentage raises when the
  entry is missing or no number.
\<close>

datatype validation_result =
    Finished "error option" TaskState world
  | MoreWork TaskState world

definition confidence_printable :: "pydict \<Rightarrow> error option" where
  "confidence_printable validation =
     (case map_of validation ''confidence'' of
        None \<Rightarrow> Some (PyException ''KeyError'')
      | Some (PInt n) \<Rightarrow> None
      | Some (PFloat x) \<Rightarrow> None
      | Some (PBool b) \<Rightarrow> None
      | Some v \<Rightarrow> Some (PyException ''ValueError''))"

definition forced_completion_note :: string where
  "forced_completion_note = ''Forced completion after max retries''"

definition validation_round :: "env \<Rightarrow> world \<Rightarrow> TaskState \<Rightarrow> validation_result" where
  "validation_round e w task =
     (case transition_state task VALIDATING of
        (Some err, t) \<Rightarrow> Finished (Some err) t w
      | (None, t1) \<Rightarrow>
          (let w1 = w\<lparr>tick := tick w + 1\<rparr> in
           case validate_completion e (tick w) (outcome t1) (task_context t1) (history t1) of
             Inl err \<Rightarrow> Finished (Some err) t1 w1
           | Inr validation \<Rightarrow>
               (case map_of validation ''completed'' of
                  None \<Rightarrow> Finished (Some (PyException ''KeyError'')) t1 w1
                | Some completed \<Rightarrow>
                    (case confidence_printable validation of
                       Some err \<Rightarrow> Finished (Some err) t1 w1
                     | None \<Rightarrow>
                         if truthy completed then
                           (case transition_state t1 COMPLETED of
                              (Some err, t) \<Rightarrow> Finished (Some err) t w1
                            | (None, t2) \<Rightarrow>
                                (case notify_completion t2 validation of
                                   (r, t3) \<Rightarrow> Finished r t3 w1))
                         else
                           (let replan_count = replan_count_of (task_context t1) in
                            case py_ge3 replan_count of
                              Inl err \<Rightarrow> Finished (Some err) t1 w1
                            | Inr True \<Rightarrow>
                                (case transition_state t1 COMPLETED of
                                   (Some err, t) \<Rightarrow> Finished (Some err) t w1
                                 | (None, t2) \<Rightarrow>
                                     (case notify_completion t2
                                             (dict_set validation ''note''
                                                (PStr forced_completion_note)) of
                                        (r, t3) \<Rightarrow> Finished r t3 w1))
                            | Inr False \<Rightarrow>
                                if truthy (context_get validation ''needs_more_work'') then
                                  (let t2 = t1\<lparr>task_context :=
                                              dict_set (task_context t1) ''_replan_count''
                                                (py_add1 replan_count)\<rparr>;
                                       w2 = w1\<lparr>tick := tick w1 + 1\<rparr>
                                   in case planner_create_plan e (tick w1) (outcome t2)
                                             (task_context t2) of
                                        Inl err \<Rightarrow> Finished (Some err) t2 w2
                                      | Inr new_steps \<Rightarrow>
                                          MoreWork (t2\<lparr>plan := plan t2 @ new_steps,
                                                        task_status := EXECUTING\<rparr>) w2)
                                else
                                  (case transition_state t1 FAILED of
                                     (r, t) \<Rightarrow> Finished r t w1))))))"

text \<open>
  \<^verbatim>\<open>_execute_plan\<close> and \<^verbatim>\<open>_validate_and_complete\<close> call each other, and the replanning of a
  step can go on for ever, so both take a fuel: each round of the loop and each call uses
  one unit, and \<open>None\<close> means that the fuel ran out. The result is the exception that leaves
  \<^verbatim>\<open>_execute_plan\<close>, if any, with the task and the world.
\<close>

fun orchestrator_execute_plan ::
  "nat \<Rightarrow> env \<Rightarrow> world \<Rightarrow> TaskState \<Rightarrow> (error option \<times> TaskState \<times> world) option"
and validate_and_complete ::
  "nat \<Rightarrow> env \<Rightarrow> world \<Rightarrow> TaskState \<Rightarrow> (error option \<times> TaskState \<times> world) option" where
  "orchestrator_execute_plan 0 e w task = None"
| "orchestrator_execute_plan (Suc fuel) e w task =
     (if current_step_index task < length (plan task) then
        (if status (plan task ! current_step_index task) = STEP_COMPLETED
         then orchestrator_execute_plan fuel e w
                (task\<lparr>current_step_index := current_step_index task + 1\<rparr>)
         else
           (case run_current_step e w task of
              Raised err t w1 \<Rightarrow> Some (Some err, t, w1)
            | GoOn t w1 \<Rightarrow> orchestrator_execute_plan fuel e w1 t))
      else validate_and_complete fuel e w task)"
| "validate_and_complete 0 e w task = None"
| "validate_and_complete (Suc fuel) e w task =
     (case validation_round e w task of
        Finished r t w1 \<Rightarrow> Some (r, t, w1)
      | MoreWork t w1 \<Rightarrow> orchestrator_execute_plan fuel e w1 t)"

text \<open>
  What the \<^verbatim>\<open>except\<close> clauses of \<^verbatim>\<open>_process_task\<close> do with the outcome of the \<^verbatim>\<open>try\<close> block:
  an interruption pauses the task, a transition error is only reported, any other
  exception fails the task, by a transition or by force.
\<close>

definition force_failed :: "TaskState \<Rightarrow> TaskState" where
  "force_failed task =
     (case transition_state task FAILED of
        (Some err, t) \<Rightarrow> t\<lparr>task_status := FAILED\<rparr>
      | (None, t) \<Rightarrow> t)"

fun process_task_handlers :: "error option \<Rightarrow> TaskState \<Rightarrow> TaskState" where
  "process_task_handlers None task = task"
| "process_task_handlers (Some (HumanInterruptionRequired reason data)) task =
     handle_interruption task reason data"
| "process_task_handlers (Some (StateTransitionError old new)) task = task"
| "process_task_handlers (Some err) task = force_failed task"

text \<open>\<^verbatim>\<open>_process_task\<close>, for a task that the state manager has loaded.\<close>

definition process_task ::
  "nat \<Rightarrow> env \<Rightarrow> world \<Rightarrow> TaskState \<Rightarrow> (TaskState \<times> world) option" where
  "process_task fuel e w task =
     (let tried =
        (case transition_state task ANALYZING of
           (Some err, t) \<Rightarrow> Some (Some err, t, w)
         | (None, t1) \<Rightarrow>
             (case map_of (task_context t1) ''goal'' of
                None \<Rightarrow> Some (Some (PyException ''KeyError''), t1, w)
              | Some goal \<Rightarrow>
                  (let w1 = w\<lparr>tick := tick w + 1\<rparr> in
                   case interpreter_interpret e (tick w) goal (task_context t1) of
                     Inl err \<Rightarrow> Some (Some err, t1, w1)
                   | Inr oc \<Rightarrow>
                       (let t2 = t1\<lparr>outcome := Some oc\<rparr> in
                        if truthy (context_get (constraints oc) ''needs_clarification'')
                        then Some (None,
                               request_clarification t2
                                 (context_get (constraints oc) ''clarification_question''), w1)
                        else
                          (case transition_state t2 PLANNING of
                             (Some err, t) \<Rightarrow> Some (Some err, t, w1)
                           | (None, t3) \<Rightarrow>
                               (let w2 = w1\<lparr>tick := tick w1 + 1\<rparr> in
                                case planner_create_plan e (tick w1) (outcome t3)
                                       (task_context t3) of
                                  Inl err \<Rightarrow> Some (Some err, t3, w2)
                                | Inr new_plan \<Rightarrow>
                                    (case transition_state (t3\<lparr>plan := new_plan\<rparr>) EXECUTING of
                                       (Some err, t) \<Rightarrow> Some (Some err, t, w2)
                                     | (None, t4) \<Rightarrow>
                                         orchestrator_execute_plan fuel e w2 t4)))))))
      in case tried of
           None \<Rightarrow> None
         | Some (r, t, w3) \<Rightarrow> Some (process_task_handlers r t, w3))"

text \<open>
  \<^verbatim>\<open>_resume_execution\<close>: an interruption pauses the task again, every other exception sets
  the status to \<open>FAILED\<close> directly.
\<close>

fun resume_handlers :: "error option \<Rightarrow> TaskState \<Rightarrow> TaskState" where
  "resume_handlers None task = task"
| "resume_handlers (Some (HumanInterruptionRequired reason data)) task =
     handle_interruption task reason data"
| "resume_handlers (Some err) task = task\<lparr>task_status := FAILED\<rparr>"

definition resume_execution ::
  "nat \<Rightarrow> env \<Rightarrow> world \<Rightarrow> TaskState \<Rightarrow> (TaskState \<times> world) option" where
  "resume_execution fuel e w task =
     (case orchestrator_execute_plan fuel e w task of
        None \<Rightarrow> None
      | Some (r, t, w1) \<Rightarrow> Some (resume_handlers r t, w1))"

text \<open>
  \<^verbatim>\<open>resume_after_interruption\<close>, for a task that the state manager has loaded. It returns
  the response dict, the task as it is saved, and which coroutine it has started.
\<close>

datatype started = Nothing | ResumeExecution | ProcessTask

definition complete_current_step :: "TaskState \<Rightarrow> pydict \<Rightarrow> TaskState" where
  "complete_current_step task res =
     (if current_step_index task < length (plan task) then
        task\<lparr>plan := (plan task)[current_step_index task :=
                  (plan task ! current_step_index task)
                    \<lparr>status := STEP_COMPLETED, result := Some (PDict res)\<rparr>],
             current_step_index := current_step_index task + 1\<rparr>
      else task)"

definition finish_resume :: "TaskState \<Rightarrow> pydict \<times> TaskState \<times> started" where
  "finish_resume task =
     (let t1 = task\<lparr>interrupt_reason := None, interrupt_data := None\<rparr> in
      if plan t1 \<noteq> []
      then ([(''success'', PBool True), (''status'', PStr ''resumed'')],
            t1\<lparr>task_status := EXECUTING\<rparr>, ResumeExecution)
      else ([(''success'', PBool True), (''status'', PStr ''resumed'')],
            t1\<lparr>task_status := PENDING\<rparr>, ProcessTask))"

definition resume_after_interruption ::
  "env \<Rightarrow> TaskState \<Rightarrow> pydict \<Rightarrow> pydict \<times> TaskState \<times> started" where
  "resume_after_interruption e task user_response =
     (if task_status task \<noteq> INTERRUPTED then
        ([(''success'', PBool False),
          (''error'', PStr (''Task not interrupted (status: '' @ status_value (task_status task)
                             @ '')''))], task, Nothing)
      else
        (let t0 = task\<lparr>task_context :=
                     dict_set (task_context task) ''user_response'' (PDict user_response)\<rparr> in
         if interrupt_reason t0 = Some ''payment_required'' then
           (if truthy (context_get user_response ''approved'') then
              finish_resume
                (complete_current_step
                   (t0\<lparr>task_context :=
                         dict_set
                           (dict_set (task_context t0) ''user_payment_method''
                              (case map_of user_response ''payment_method'' of
                                 None \<Rightarrow> PStr ''default'' | Some v \<Rightarrow> v))
                           ''payment_approved'' (PBool True)\<rparr>)
                   [(''approved'', PBool True),
                    (''method'', context_get user_response ''payment_method'')])
            else
              ([(''success'', PBool False), (''error'', PStr ''Payment declined'')],
               t0\<lparr>task_status := FAILED,
                   task_context := dict_set (task_context t0) ''failure_reason''
                                     (PStr ''Payment declined by user'')\<rparr>,
               Nothing))
         else if interrupt_reason t0 = Some ''approval_needed'' then
           (if truthy (context_get user_response ''approved'') then
              finish_resume
                (complete_current_step
                   (t0\<lparr>task_context :=
                         dict_set
                           (dict_set (task_context t0) ''approval_response''
                              (PDict user_response))
                           ''approval_received'' (PBool True)\<rparr>)
                   [(''approved'', PBool True)])
            else
              ([(''success'', PBool False), (''error'', PStr ''Approval denied'')],
               t0\<lparr>task_status := FAILED\<rparr>, Nothing))
         else if interrupt_reason t0 = Some ''clarification_needed'' then
           (let answer = context_get user_response ''answer'';
                goal_text =
                  builtin_str e (case map_of (task_context t0) ''goal'' of
                                   None \<Rightarrow> PStr [] | Some v \<Rightarrow> v)
                  @ '' - Additional info: ''
                  @ builtin_str e (case map_of user_response ''answer'' of
                                     None \<Rightarrow> PStr [] | Some v \<Rightarrow> v);
                t1 = t0\<lparr>task_context :=
                          dict_set (dict_set (task_context t0) ''clarification_answer'' answer)
                            ''goal'' (PStr goal_text)\<rparr>
            in if plan t1 \<noteq> [] \<and> current_step_index t1 < length (plan t1)
                  \<and> action_type (plan t1 ! current_step_index t1) = ''request_user_help''
               then finish_resume (complete_current_step t1 [(''user_response'', answer)])
               else finish_resume t1)
         else finish_resume t0))"

section \<open>Plans that cannot finish\<close>







section \<open>The classification rules as the specification lists them\<close>




section \<open>Concrete inputs\<close>


definition demo_env :: env where
  "demo_env =
     \<lparr>has_handler = (\<lambda>a. True),
      tools = (\<lambda>n a p. Returned []),
      clock = (\<lambda>n. real n),
      random = (\<lambda>n. 1 / 2),
      builtin_str = (\<lambda>v. ''?''),
      interpreter_interpret = (\<lambda>n g c. Inl (PyException ''no interpreter'')),
      planner_create_plan = (\<lambda>n g c. Inr []),
      planner_replan = (\<lambda>n t i s. Inr []),
      validate_completion = (\<lambda>n a b c. Inr [])\<rparr>"

definition demo_step :: ExecutionStep where
  "demo_step =
     \<lparr>step_id = ''s1'', description = ''find a seat'', action_type = ''search_inventory'',
      parameters = [], dependencies = [], status = STEP_PENDING, result = None,
      step_error = None, retry_count = 0, max_retries = 3\<rparr>"






definition demo_task :: TaskState where
  "demo_task =
     \<lparr>task_id = ''t1'', user_id = ''u1'', task_status = EXECUTING, outcome = None,
      plan = [demo_step], current_step_index = 0,
      task_context = [(''goal'', PStr ''Book a flight to Tokyo next week under $800'')],
      history = [], interrupt_reason = None, interrupt_data = None\<rparr>"

text \<open>
  Inputs for the orchestrator: a task paused for a payment, a validator that is never
  satisfied together with a planner that has nothing to add, and a task whose plan is done.
\<close>

definition paused_task :: TaskState where
  "paused_task =
     handle_interruption demo_task ''payment_required''
       [(''amount'', PInt 680), (''currency'', PStr ''USD'')]"




text \<open>
  A payment step: in \<open>payment_env\<close> every handler asks for the approval of a payment.
\<close>

definition payment_data :: pydict where
  "payment_data = [(''amount'', PInt 680), (''currency'', PStr ''USD'')]"

definition payment_env :: env where
  "payment_env = demo_env\<lparr>tools := (\<lambda>n a p. Interrupts ''payment_required'' payment_data)\<rparr>"

section \<open>Task state machine\<close>

text \<open>
  C2. Every request \<open>(from, to)\<close> that is not a row of the transition table of section 4.1
  raises \<open>StateTransitionError\<close> and leaves the task (so also its status) as it was; a task
  in \<open>COMPLETED\<close> or \<open>FAILED\<close> has no transition that succeeds.
\<close>

theorem transition_outside_table_rejected:
  "((task_status task, new_state) \<notin> set spec_transition_table \<longrightarrow>
      transition_state task new_state =
        (Some (StateTransitionError (task_status task) new_state), task))
   \<and> (task_status task \<in> {COMPLETED, FAILED} \<longrightarrow>
        fst (transition_state task new_state) \<noteq> None
        \<and> snd (transition_state task new_state) = task)"
  by (cases "task_status task"; cases new_state)
     (simp_all add: transition_state_def spec_transition_table_def)

theorem transition_outside_table_rejected_witness:
  "(task_status (demo_task\<lparr>task_status := COMPLETED\<rparr>), EXECUTING) \<notin> set spec_transition_table
   \<and> transition_state (demo_task\<lparr>task_status := COMPLETED\<rparr>) EXECUTING =
       (Some (StateTransitionError COMPLETED EXECUTING), demo_task\<lparr>task_status := COMPLETED\<rparr>)
   \<and> transition_state (demo_task\<lparr>task_status := WAITING\<rparr>) VALIDATING =
       (Some (StateTransitionError WAITING VALIDATING), demo_task\<lparr>task_status := WAITING\<rparr>)"
  using transition_outside_table_rejected [of "demo_task\<lparr>task_status := COMPLETED\<rparr>" EXECUTING]
    transition_outside_table_rejected [of "demo_task\<lparr>task_status := WAITING\<rparr>" VALIDATING]
  by (simp add: spec_transition_table_def)

section \<open>Circuit breaker\<close>

lemma breaker_run_Nil: "breaker_run k [] cb = cb"
  by (simp add: breaker_run_def)

lemma breaker_run_Cons: "breaker_run k (c # cs) cb = breaker_run k cs (breaker_step k c cb)"
  by (simp add: breaker_run_def)

lemma breaker_step_params:
  "failure_threshold (breaker_step k c cb) = failure_threshold cb"
  "recovery_timeout (breaker_step k c cb) = recovery_timeout cb"
  by (cases c; simp add: is_open_def record_success_def record_failure_def Let_def)+

lemma breaker_step_no_success_mono:
  "c \<noteq> RecordSuccess \<Longrightarrow> failures_get cb k \<le> failures_get (breaker_step k c cb) k"
  by (cases c) (simp_all add: is_open_def record_failure_def failures_get_def Let_def)

lemma breaker_run_no_success_mono:
  "RecordSuccess \<notin> set calls \<Longrightarrow>
     failure_threshold (breaker_run k calls cb) = failure_threshold cb
     \<and> failures_get cb k \<le> failures_get (breaker_run k calls cb) k"
proof (induction calls arbitrary: cb)
  case Nil
  then show ?case by (simp add: breaker_run_Nil)
next
  case (Cons c cs)
  then have c: "c \<noteq> RecordSuccess" and cs: "RecordSuccess \<notin> set cs" by auto
  from Cons.IH [OF cs, of "breaker_step k c cb"] breaker_step_no_success_mono [OF c, of cb k]
  show ?case by (simp add: breaker_run_Cons breaker_step_params)
qed

text \<open>
  C4. For every action type \<open>k\<close>, with the engine's threshold 5 and recovery timeout 300:
  \<open>record_failure\<close> adds one to the failure count and the breaker is open once the count
  has reached 5 (and is left as it was below 5); while open, \<open>is_open\<close> answers true as long
  as no more than 300 seconds have passed since the last failure, and after that it sets
  the state to half-open and answers false; a \<open>record_success\<close> in half-open closes the
  breaker; \<open>record_success\<close> takes one from the count, not below 0, so a count of 2 or more
  stays positive. From a new breaker, four failures leave it closed and the fifth opens it.
\<close>

theorem circuit_breaker_lifecycle:
  assumes "failure_threshold cb = 5" and "recovery_timeout cb = 300"
  shows
  "failures_get (record_failure cb k now) k = failures_get cb k + 1
   \<and> (5 \<le> failures_get cb k + 1 \<longrightarrow> state (record_failure cb k now) k = Some ''open'')
   \<and> (failures_get cb k + 1 < 5 \<longrightarrow> state (record_failure cb k now) k = state cb k)
   \<and> (state cb k = Some ''open'' \<and> now - last_failure_get cb k \<le> 300 \<longrightarrow>
        is_open cb k now = (True, cb))
   \<and> (state cb k = Some ''open'' \<and> now - last_failure_get cb k > 300 \<longrightarrow>
        is_open cb k now = (False, cb\<lparr>state := (state cb)(k \<mapsto> ''half-open'')\<rparr>))
   \<and> (state cb k = Some ''half-open'' \<longrightarrow> state (record_success cb k) k = Some ''closed'')
   \<and> failures_get (record_success cb k) k = max 0 (failures_get cb k - 1)
   \<and> (2 \<le> failures_get cb k \<longrightarrow> 0 < failures_get (record_success cb k) k)
   \<and> state (breaker_run k [RecordFailure t1, RecordFailure t2, RecordFailure t3, RecordFailure t4]
              CircuitBreaker_init) k = None
   \<and> state (breaker_run k [RecordFailure t1, RecordFailure t2, RecordFailure t3, RecordFailure t4,
              RecordFailure t5] CircuitBreaker_init) k = Some ''open''"
  using assms
  by (auto simp add: record_failure_def record_success_def is_open_def failures_get_def
        Let_def breaker_run_def CircuitBreaker_init_def dom_def)

theorem circuit_breaker_lifecycle_witness:
  "state (record_failure (breaker_run ''pay'' (map RecordFailure [1, 2, 3, 4]) CircuitBreaker_init) ''pay'' 5) ''pay''
     = Some ''open''
   \<and> fst (is_open (breaker_run ''pay'' (map RecordFailure [1, 2, 3, 4, 5]) CircuitBreaker_init) ''pay'' 305)
   \<and> \<not> fst (is_open (breaker_run ''pay'' (map RecordFailure [1, 2, 3, 4, 5]) CircuitBreaker_init) ''pay'' 306)
   \<and> state (record_success (snd (is_open (breaker_run ''pay'' (map RecordFailure [1, 2, 3, 4, 5])
         CircuitBreaker_init) ''pay'' 306)) ''pay'') ''pay'' = Some ''closed''
   \<and> failures_get (record_success (snd (is_open (breaker_run ''pay'' (map RecordFailure [1, 2, 3, 4, 5])
         CircuitBreaker_init) ''pay'' 306)) ''pay'') ''pay'' = 4"
  using circuit_breaker_lifecycle [of "breaker_run ''pay'' (map RecordFailure [1, 2, 3, 4]) CircuitBreaker_init" "''pay''" 5]
    circuit_breaker_lifecycle [of "breaker_run ''pay'' (map RecordFailure [1, 2, 3, 4, 5]) CircuitBreaker_init" "''pay''" 305]
    circuit_breaker_lifecycle [of "breaker_run ''pay'' (map RecordFailure [1, 2, 3, 4, 5]) CircuitBreaker_init" "''pay''" 306]
    circuit_breaker_lifecycle [of "snd (is_open (breaker_run ''pay'' (map RecordFailure [1, 2, 3, 4, 5]) CircuitBreaker_init) ''pay'' 306)" "''pay''" 0]
  by (simp add: record_failure_def record_success_def is_open_def failures_get_def last_failure_get_def
        Let_def breaker_run_def CircuitBreaker_init_def dom_def)

text \<open>
  C9, as stated, fails: \<open>record_success\<close> lowers the count also while the breaker is open,
  so the count can be below the threshold when \<open>is_open\<close> sets half-open, and a failure in
  half-open then does not open the breaker again. Here: five failures, two successes, the
  flip at time 306 with count 3, and a failure at 307 that leaves the state half-open.
\<close>

theorem halfopen_below_threshold_counterexample:
  "state (breaker_run ''pay'' [RecordFailure 1, RecordFailure 2, RecordFailure 3, RecordFailure 4,
       RecordFailure 5, RecordSuccess, RecordSuccess, IsOpen 306] CircuitBreaker_init) ''pay''
     = Some ''half-open''
   \<and> failures_get (breaker_run ''pay'' [RecordFailure 1, RecordFailure 2, RecordFailure 3,
       RecordFailure 4, RecordFailure 5, RecordSuccess, RecordSuccess, IsOpen 306]
       CircuitBreaker_init) ''pay'' = 3
   \<and> failure_threshold (breaker_run ''pay'' [RecordFailure 1, RecordFailure 2, RecordFailure 3,
       RecordFailure 4, RecordFailure 5, RecordSuccess, RecordSuccess, IsOpen 306]
       CircuitBreaker_init) = 5
   \<and> state (breaker_run ''pay'' [RecordFailure 1, RecordFailure 2, RecordFailure 3, RecordFailure 4,
       RecordFailure 5, RecordSuccess, RecordSuccess, IsOpen 306, RecordFailure 307]
       CircuitBreaker_init) ''pay'' = Some ''half-open''"
  by (simp add: record_failure_def record_success_def is_open_def failures_get_def last_failure_get_def
        Let_def breaker_run_def CircuitBreaker_init_def dom_def)

text \<open>
  C9, amended. The flip from open to half-open leaves the failure counts as they are. If
  the count at the flip is at least the threshold minus one, one failure recorded in
  half-open opens the breaker again; this is so in particular when no success was recorded
  since the count reached the threshold, because every other call keeps the count at or
  above it. A success recorded while the state is open leaves the state open and only
  lowers the count by one.
\<close>

theorem halfopen_probe_reopens:
  assumes "state cb k = Some ''open''"
    and "now - last_failure_get cb k > real_of_int (recovery_timeout cb)"
  shows
  "is_open cb k now = (False, cb\<lparr>state := (state cb)(k \<mapsto> ''half-open'')\<rparr>)
   \<and> failures (snd (is_open cb k now)) = failures cb
   \<and> (failure_threshold cb \<le> failures_get cb k + 1 \<longrightarrow>
        state (record_failure (snd (is_open cb k now)) k t) k = Some ''open'')
   \<and> (failure_threshold cb0 \<le> failures_get cb0 k \<and> RecordSuccess \<notin> set calls \<longrightarrow>
        failure_threshold (breaker_run k calls cb0) \<le> failures_get (breaker_run k calls cb0) k)
   \<and> state (record_success cb k) k = Some ''open''
   \<and> failures_get (record_success cb k) k = max 0 (failures_get cb k - 1)"
  using assms breaker_run_no_success_mono [of calls k cb0]
  by (auto simp add: record_failure_def record_success_def is_open_def failures_get_def
        Let_def dom_def)


theorem halfopen_probe_reopens_witness:
  "is_open (breaker_run ''pay'' (map RecordFailure [1, 2, 3, 4, 5]) CircuitBreaker_init) ''pay'' 306
     = (False, (breaker_run ''pay'' (map RecordFailure [1, 2, 3, 4, 5]) CircuitBreaker_init)
                 \<lparr>state := (state (breaker_run ''pay'' (map RecordFailure [1, 2, 3, 4, 5])
                                    CircuitBreaker_init))(''pay'' \<mapsto> ''half-open'')\<rparr>)
   \<and> state (record_failure (snd (is_open (breaker_run ''pay'' (map RecordFailure [1, 2, 3, 4, 5])
         CircuitBreaker_init) ''pay'' 306)) ''pay'' 307) ''pay'' = Some ''open''
   \<and> state (record_success (breaker_run ''pay'' (map RecordFailure [1, 2, 3, 4, 5])
         CircuitBreaker_init) ''pay'') ''pay'' = Some ''open''
   \<and> failures_get (breaker_run ''pay'' [IsOpen 306, RecordFailure 307]
         (breaker_run ''pay'' (map RecordFailure [1, 2, 3, 4, 5]) CircuitBreaker_init)) ''pay'' \<ge> 5"
  using halfopen_probe_reopens
          [where cb = "breaker_run ''pay'' (map RecordFailure [1, 2, 3, 4, 5]) CircuitBreaker_init"
             and k = "''pay''" and now = 306 and t = 307
             and ?cb0.0 = "breaker_run ''pay'' (map RecordFailure [1, 2, 3, 4, 5]) CircuitBreaker_init"
             and calls = "[IsOpen 306, RecordFailure 307]"]
  by (simp add: record_failure_def record_success_def is_open_def failures_get_def
        last_failure_get_def Let_def breaker_run_def CircuitBreaker_init_def dom_def)

section \<open>Failure classification\<close>









section \<open>Template parameters\<close>

lemma startswith_iff: "startswith s p \<longleftrightarrow> (\<exists>q. s = p @ q)"
proof
  assume "startswith s p"
  then have "s = p @ drop (length p) s"
    by (metis append_take_drop_id startswith_def)
  then show "\<exists>q. s = p @ q" ..
next
  assume "\<exists>q. s = p @ q"
  then show "startswith s p" by (auto simp: startswith_def)
qed

lemma py_in_iff: "py_in x s \<longleftrightarrow> (\<exists>p q. s = p @ x @ q)"
proof (induction s)
  case Nil
  then show ?case by auto
next
  case (Cons c cs)
  show ?case
  proof
    assume "py_in x (c # cs)"
    then consider "startswith (c # cs) x" | "py_in x cs" by auto
    then show "\<exists>p q. c # cs = p @ x @ q"
    proof cases
      case 1
      then obtain q where "c # cs = x @ q" by (auto simp: startswith_iff)
      then have "c # cs = [] @ x @ q" by simp
      then show ?thesis by blast
    next
      case 2
      then obtain p q where "cs = p @ x @ q" using Cons.IH by auto
      then have "c # cs = (c # p) @ x @ q" by simp
      then show ?thesis by blast
    qed
  next
    assume "\<exists>p q. c # cs = p @ x @ q"
    then obtain p q where pq: "c # cs = p @ x @ q" by blast
    show "py_in x (c # cs)"
    proof (cases p)
      case Nil
      with pq have "startswith (c # cs) x" by (auto simp: startswith_iff)
      then show ?thesis by simp
    next
      case (Cons a p')
      with pq have "cs = p' @ x @ q" by simp
      then have "py_in x cs" using Cons.IH by blast
      then show ?thesis by simp
    qed
  qed
qed

lemma re_sub_skip: "re_sub_templates repl k s = re_sub_templates repl 0 (drop k s)"
proof (induction s arbitrary: k)
  case Nil
  then show ?case by simp
next
  case (Cons c cs)
  then show ?case by (cases k) simp_all
qed

lemma match_template_Some:
  assumes "match_template s = Some var"
  shows "\<exists>rest. s = ''{{'' @ var @ ''}}'' @ rest"
proof -
  from assms have sw: "startswith s ''{{''"
    by (auto simp: match_template_def split: if_splits)
  then obtain body where s: "s = ''{{'' @ body" by (auto simp: startswith_iff)
  then have body: "drop 2 s = body" by simp
  from assms sw body have var: "var = takeWhile is_word_char body"
    and sw2: "startswith (dropWhile is_word_char body) ''}}''"
    by (auto simp: match_template_def Let_def split: if_splits)
  from sw2 obtain rest where r: "dropWhile is_word_char body = ''}}'' @ rest"
    by (auto simp: startswith_iff)
  have "body = takeWhile is_word_char body @ dropWhile is_word_char body" by simp
  with var r have "body = var @ ''}}'' @ rest" by simp
  with s show ?thesis by simp
qed

lemma re_sub_identity:
  "(\<And>var. py_in (''{{'' @ var @ ''}}'') s \<Longrightarrow> repl var = ''{{'' @ var @ ''}}'')
     \<Longrightarrow> re_sub_templates repl 0 s = s"
proof (induction s rule: length_induct)
  case (1 s)
  show ?case
  proof (cases s)
    case Nil
    then show ?thesis by simp
  next
    case (Cons c cs)
    show ?thesis
    proof (cases "match_template s")
      case None
      have "re_sub_templates repl 0 cs = cs"
      proof (rule "1.IH" [rule_format])
        show "length cs < length s" using Cons by simp
      next
        fix var assume "py_in (''{{'' @ var @ ''}}'') cs"
        then have "py_in (''{{'' @ var @ ''}}'') s" using Cons by simp
        then show "repl var = ''{{'' @ var @ ''}}''" by (rule "1.prems")
      qed
      with None Cons show ?thesis by simp
    next
      case (Some var)
      then obtain rest where s: "s = ''{{'' @ var @ ''}}'' @ rest"
        using match_template_Some by blast
      then have "s = [] @ (''{{'' @ var @ ''}}'') @ rest" by simp
      then have "py_in (''{{'' @ var @ ''}}'') s" unfolding py_in_iff by blast
      then have rv: "repl var = ''{{'' @ var @ ''}}''" by (rule "1.prems")
      from s Cons have cs: "cs = ''{'' @ var @ ''}}'' @ rest" by simp
      have dr: "drop (length xs) (xs @ rest) = rest" for xs :: string by simp
      have "length (''{'' @ var @ ''}}'') = length var + 3" by simp
      with dr [of "''{'' @ var @ ''}}''"] cs
      have d: "drop (length var + 3) cs = rest" by (simp only: append_assoc)
      have "re_sub_templates repl 0 rest = rest"
      proof (rule "1.IH" [rule_format])
        show "length rest < length s" using s by simp
      next
        fix v assume "py_in (''{{'' @ v @ ''}}'') rest"
        then obtain p q where "rest = p @ (''{{'' @ v @ ''}}'') @ q" unfolding py_in_iff by blast
        then have "s = (''{{'' @ var @ ''}}'' @ p) @ (''{{'' @ v @ ''}}'') @ q" using s by simp
        then have "py_in (''{{'' @ v @ ''}}'') s" unfolding py_in_iff by blast
        then show "repl v = ''{{'' @ v @ ''}}''" by (rule "1.prems")
      qed
      then have step: "re_sub_templates repl (length var + 3) cs = rest"
        using re_sub_skip [of repl "length var + 3" cs] d by simp
      from Some have m: "match_template (c # cs) = Some var" unfolding Cons .
      have "re_sub_templates repl 0 (c # cs)
              = repl var @ re_sub_templates repl (length var + 3) cs"
        by (simp only: re_sub_templates.simps m option.case)
      also have "\<dots> = (''{{'' @ var @ ''}}'') @ rest"
        by (simp only: rv step)
      also have "\<dots> = s" using s by simp
      finally show ?thesis unfolding Cons .
    qed
  qed
qed

lemma map_of_resolve:
  "map_of (resolve_parameters py_str params ctx) key
     = map_option (resolve_value py_str ctx) (map_of params key)"
  by (induction params) (auto simp: resolve_parameters_def)

lemma resolve_exact_template:
  "resolve_value py_str ctx (PStr (''{{'' @ var @ ''}}'')) = context_get ctx var"
  by (simp add: startswith_def endswith_def slice_2_m2_def)

lemma resolve_exact_template_absent:
  assumes "map_of params key = Some (PStr (''{{'' @ var @ ''}}''))" and "map_of ctx var = None"
  shows "map_of (resolve_parameters py_str params ctx) key = Some PNone"
proof -
  have "map_of (resolve_parameters py_str params ctx) key
          = Some (resolve_value py_str ctx (PStr (''{{'' @ var @ ''}}'')))"
    using assms(1) by (simp only: map_of_resolve option.map)
  also have "\<dots> = Some (context_get ctx var)"
    by (simp only: resolve_exact_template)
  also have "\<dots> = Some PNone"
    using assms(2) by (simp add: context_get_def)
  finally show ?thesis .
qed

lemma resolve_embedded_verbatim:
  assumes "\<not> (startswith v ''{{'' \<and> endswith v ''}}'')"
    and "\<And>var. py_in (''{{'' @ var @ ''}}'') v \<Longrightarrow> map_of ctx var = None"
  shows "resolve_value py_str ctx (PStr v) = PStr v"
proof -
  have "re_sub_templates (replace_var py_str ctx) 0 v = v"
    by (rule re_sub_identity) (simp add: replace_var_def assms(2))
  with assms(1) show ?thesis by auto
qed


text \<open>
  C10. A parameter whose value is exactly \<^verbatim>\<open>{{var}}\<close> with \<open>var\<close> absent from the context
  resolves to \<open>None\<close> (lemma \<open>resolve_exact_template_absent\<close>), and a string that does not
  both begin with \<^verbatim>\<open>{{\<close> and end with \<^verbatim>\<open>}}\<close> keeps every template whose variable is absent
  (lemma \<open>resolve_embedded_verbatim\<close>). But a longer string that begins with one template
  and ends with another is taken for a single template by the test on its first and last
  two characters: the text between them is looked up as one key, and the handler receives
  \<open>None\<close> where the claim says the string is left verbatim.
\<close>

theorem joined_templates_resolve_to_None:
  "resolve_parameters (builtin_str demo_env)
       [(''route'', PStr ''{{origin}}-{{destination}}'')] []
     = [(''route'', PNone)]
   \<and> map (\<lambda>inv. fst (snd (snd inv)))
        (invocations (snd (snd (execute_step demo_env world_init
           (demo_step\<lparr>parameters := [(''route'', PStr ''{{origin}}-{{destination}}'')]\<rparr>) []))))
     = [[(''route'', PNone)]]"
  by (simp add: resolve_parameters_def startswith_def endswith_def slice_2_m2_def
        context_get_def execute_step_def demo_env_def demo_step_def world_init_def Let_def)

section \<open>Plan execution by waves\<close>

lemma execute_step_keeps:
  "step_id (fst (snd (execute_step e w s ctx))) = step_id s"
  "dependencies (fst (snd (execute_step e w s ctx))) = dependencies s"
  "action_type (fst (snd (execute_step e w s ctx))) = action_type s"
  "breaker (snd (snd (execute_step e w s ctx))) = breaker w"
  "sleeps (snd (snd (execute_step e w s ctx))) = sleeps w"
  by (simp_all add: execute_step_def Let_def split: handler_outcome.splits)



lemma gather_steps_Cons:
  "gather_steps e ctx ((i, s) # rest) w =
     ((i, fst (snd (execute_step e w s ctx)), fst (execute_step e w s ctx))
        # fst (gather_steps e ctx rest (snd (snd (execute_step e w s ctx)))),
      snd (gather_steps e ctx rest (snd (snd (execute_step e w s ctx)))))"
  by (simp split: prod.splits)












lemma write_back_length: "length (write_back results cur) = length cur"
  unfolding write_back_def by (induction results arbitrary: cur) simp_all

lemma write_back_other:
  "i \<notin> fst ` set results \<Longrightarrow> write_back results cur ! i = cur ! i"
  unfolding write_back_def by (induction results arbitrary: cur) auto


lemma fold_insert_set:
  "set (fold (\<lambda>r c. List.insert (f r) c) results completed_steps)
     = set completed_steps \<union> f ` set results"
  by (induction results arbitrary: completed_steps) auto

lemma fold_insert_distinct:
  "distinct completed_steps \<Longrightarrow>
     distinct (fold (\<lambda>r c. List.insert (f r) c) results completed_steps)"
  by (induction results arbitrary: completed_steps) auto







lemma gather_steps_ids:
  "map (\<lambda>r. step_id (fst (snd r))) (fst (gather_steps e ctx batch w))
     = map (\<lambda>b. step_id (snd b)) batch"
proof (induction batch arbitrary: w)
  case Nil
  then show ?case by simp
next
  case (Cons a batch)
  obtain i s where a: "a = (i, s)" by (cases a)
  show ?case unfolding a gather_steps_Cons using Cons.IH by (simp add: execute_step_keeps)
qed

lemma process_results_None:
  "process_results plan0 results cur completed_steps ctx = (None, cur2, completed2, ctx2)
     \<Longrightarrow> cur2 = cur
         \<and> completed2 = fold (\<lambda>r c. List.insert (step_id (fst (snd r))) c) results completed_steps"
proof (induction results arbitrary: completed_steps ctx)
  case Nil
  then show ?case by simp
next
  case (Cons r results)
  obtain i s x where r: "r = (i, s, x)" by (cases r)
  show ?case
  proof (cases x)
    case (Inl err)
    with Cons.prems r show ?thesis by (simp add: Let_def)
  next
    case (Inr res)
    show ?thesis
    proof (cases "dict_update ctx (get_or_empty res ''context_updates'')")
      case (Inl err)
      with Cons.prems r Inr show ?thesis by simp
    next
      case (Inr ctx1)
      with Cons.prems r \<open>x = Inr res\<close>
      have "process_results plan0 results cur (List.insert (step_id s) completed_steps) ctx1
              = (None, cur2, completed2, ctx2)" by simp
      from Cons.IH [OF this] r show ?thesis by simp
    qed
  qed
qed

lemma execute_plan_loop_total:
  "distinct completed_steps \<Longrightarrow> length steps - length completed_steps < fuel
     \<Longrightarrow> execute_plan_loop fuel e w steps completed_steps ctx \<noteq> None"
proof (induction fuel arbitrary: w steps completed_steps ctx)
  case 0
  then show ?case by simp
next
  case (Suc fuel)
  let ?ready = "ready_indices steps completed_steps"
  show ?case
  proof (cases "length completed_steps < length steps \<and> ?ready \<noteq> []")
    case False
    then show ?thesis by (auto simp: Let_def)
  next
    case True
    obtain results w1 where g:
      "gather_steps e ctx (map (\<lambda>i. (i, steps ! i)) ?ready) w = (results, w1)"
      by (cases "gather_steps e ctx (map (\<lambda>i. (i, steps ! i)) ?ready) w")
    obtain o1 cur2 completed2 ctx2 where p:
      "process_results steps results (write_back results steps) completed_steps ctx
         = (o1, cur2, completed2, ctx2)"
      by (cases "process_results steps results (write_back results steps) completed_steps ctx")
    show ?thesis
    proof (cases o1)
      case (Some a)
      with True g p show ?thesis by (simp add: Let_def)
    next
      case None
      from process_results_None [OF p [unfolded None]]
      have c2: "cur2 = write_back results steps"
        and k2: "completed2 = fold (\<lambda>r c. List.insert (step_id (fst (snd r))) c) results completed_steps"
        by simp_all
      have ids: "map (\<lambda>r. step_id (fst (snd r))) results = map (\<lambda>i. step_id (steps ! i)) ?ready"
        using gather_steps_ids [of e ctx "map (\<lambda>i. (i, steps ! i)) ?ready" w] g
        by (simp add: comp_def)
      from True obtain j where j: "j \<in> set ?ready" by (meson last_in_set)
      then have notin: "step_id (steps ! j) \<notin> set completed_steps"
        unfolding ready_indices_def by simp
      from j have "step_id (steps ! j) \<in> set (map (\<lambda>i. step_id (steps ! i)) ?ready)" by simp
      then have "step_id (steps ! j) \<in> set (map (\<lambda>r. step_id (fst (snd r))) results)"
        unfolding ids .
      then have "step_id (steps ! j) \<in> (\<lambda>r. step_id (fst (snd r))) ` set results" by simp
      then have "step_id (steps ! j) \<in> set completed2"
        unfolding k2 fold_insert_set by blast
      moreover have "set completed_steps \<subseteq> set completed2"
        unfolding k2 fold_insert_set by blast
      ultimately have "set completed_steps \<subset> set completed2" using notin by blast
      then have "card (set completed_steps) < card (set completed2)"
        by (simp add: psubset_card_mono)
      moreover have d2: "distinct completed2"
        unfolding k2 using Suc.prems(1) by (rule fold_insert_distinct)
      ultimately have "length completed_steps < length completed2"
        using Suc.prems(1) by (simp add: distinct_card)
      with Suc.prems(2) True have "length cur2 - length completed2 < fuel"
        unfolding c2 write_back_length by linarith
      from Suc.IH [OF d2 this, of w1 ctx2] True g p None show ?thesis
        by (simp add: Let_def)
    qed
  qed
qed

lemma execute_plan_returns: "execute_plan e w steps ctx \<noteq> None"
  unfolding execute_plan_def by (rule execute_plan_loop_total) simp_all







section \<open>Resuming after an interruption\<close>

lemma paused_task_interrupted:
  "task_status paused_task = INTERRUPTED
   \<and> interrupt_reason paused_task = Some ''payment_required''
   \<and> interrupt_data paused_task = Some [(''amount'', PInt 680), (''currency'', PStr ''USD'')]"
  by (simp add: paused_task_def handle_interruption_def transition_state_def demo_task_def)

lemma finish_resume_clears:
  "finish_resume task = (response, t, s) \<Longrightarrow>
     interrupt_reason t = None \<and> interrupt_data t = None
     \<and> task_status t \<in> {EXECUTING, PENDING} \<and> s \<noteq> Nothing"
  by (auto simp: finish_resume_def Let_def split: if_splits)

lemma resume_started_clears:
  assumes "resume_after_interruption e task user_response = (response, t, s)"
    and "s \<noteq> Nothing"
  shows "interrupt_reason t = None \<and> interrupt_data t = None
     \<and> task_status t \<in> {EXECUTING, PENDING}"
proof -
  from assms obtain t0 where "finish_resume t0 = (response, t, s)"
    by (auto simp: resume_after_interruption_def Let_def split: if_splits)
  from finish_resume_clears [OF this] show ?thesis by simp
qed

text \<open>
  C7. Resuming an interrupted task with a declined payment (or a declined approval) returns
  before the interruption state is cleared: the task is \<open>FAILED\<close> and still carries the
  \<open>interrupt_reason\<close> and \<open>interrupt_data\<close> of the pause. Every resume that starts execution
  again does clear both fields (\<open>resume_started_clears\<close>).
\<close>

theorem declined_resume_keeps_interrupt_fields:
  "task_status paused_task = INTERRUPTED
   \<and> fst (resume_after_interruption demo_env paused_task [(''approved'', PBool False)])
       = [(''success'', PBool False), (''error'', PStr ''Payment declined'')]
   \<and> task_status (fst (snd (resume_after_interruption demo_env paused_task
         [(''approved'', PBool False)]))) = FAILED
   \<and> interrupt_reason (fst (snd (resume_after_interruption demo_env paused_task
         [(''approved'', PBool False)]))) = Some ''payment_required''
   \<and> interrupt_data (fst (snd (resume_after_interruption demo_env paused_task
         [(''approved'', PBool False)])))
       = Some [(''amount'', PInt 680), (''currency'', PStr ''USD'')]
   \<and> task_status (fst (snd (resume_after_interruption demo_env
         (paused_task\<lparr>interrupt_reason := Some ''approval_needed''\<rparr>)
         [(''approved'', PBool False)]))) = FAILED
   \<and> interrupt_reason (fst (snd (resume_after_interruption demo_env
         (paused_task\<lparr>interrupt_reason := Some ''approval_needed''\<rparr>)
         [(''approved'', PBool False)]))) = Some ''approval_needed''"
  by (simp add: resume_after_interruption_def paused_task_def handle_interruption_def
        transition_state_def demo_task_def context_get_def dict_set_def Let_def)

section \<open>Validation and forced completion\<close>

lemma validation_round_forced:
  assumes st: "task_status task = EXECUTING"
    and v: "validate_completion e (tick w) (outcome task) (task_context task) (history task)
              = Inr validation"
    and c: "map_of validation ''completed'' = Some completed" and nc: "\<not> truthy completed"
    and p: "confidence_printable validation = None"
    and n: "map_of (task_context task) ''_replan_count'' = Some (PInt n)" and n3: "3 \<le> n"
    and s: "build_result_summary (task\<lparr>task_status := COMPLETED\<rparr>) = Inr summary"
  shows "validation_round e w task
     = Finished None
         (task\<lparr>task_status := COMPLETED,
               task_context :=
                 dict_set (dict_set (task_context task) ''final_result'' (PDict summary))
                   ''validation_result''
                   (PDict (dict_set validation ''note'' (PStr forced_completion_note)))\<rparr>)
         (w\<lparr>tick := tick w + 1\<rparr>)"
  using assms
  by (simp add: validation_round_def transition_state_def replan_count_of_def
        notify_completion_def Let_def)




lemma orchestrator_at_end:
  "\<not> current_step_index task < length (plan task) \<Longrightarrow>
     orchestrator_execute_plan (Suc fuel) e w task = validate_and_complete fuel e w task"
  by simp




section \<open>Interruptions\<close>

lemma execute_step_interrupts:
  assumes "has_handler e (action_type step)"
    and "tools e (tick w) (action_type step)
           (resolve_parameters (builtin_str e) (parameters step) ctx) = Interrupts reason data"
  shows "execute_step e w step ctx
      = (Inl (HumanInterruptionRequired reason data), step\<lparr>status := STEP_IN_PROGRESS\<rparr>,
         w\<lparr>tick := tick w + 1,
           invocations := invocations w @
             [(step_id step, action_type step,
               resolve_parameters (builtin_str e) (parameters step) ctx,
               Interrupts reason data)]\<rparr>)"
  using assms by (simp add: execute_step_def Let_def)

lemma retry_from_interruption:
  assumes "ex (breaker_gate e service_name w) (step\<lparr>retry_count := int attempt\<rparr>) ctx
             = (Inl (HumanInterruptionRequired reason data), step2, w3)"
  shows "retry_from e ex ctx service_name (Suc remaining) attempt last_error w step
           = (Inl (HumanInterruptionRequired reason data), step2, w3)"
  using assms by simp

lemma breaker_gate_facts:
  "tick (breaker_gate e service_name w) = tick w + 1
   \<and> invocations (breaker_gate e service_name w) = invocations w
   \<and> failures (breaker (breaker_gate e service_name w)) = failures (breaker w)
   \<and> last_failure_time (breaker (breaker_gate e service_name w)) = last_failure_time (breaker w)
   \<and> filter is_retry_delay (sleeps (breaker_gate e service_name w))
       = filter is_retry_delay (sleeps w)"
  by (simp add: breaker_gate_def is_open_def is_retry_delay_def Let_def split: prod.splits)

lemma execute_with_retry_interrupted:
  assumes h: "has_handler e (action_type step)"
    and m: "0 \<le> max_retries step"
    and t: "tools e (tick w + 1) (action_type step)
           (resolve_parameters (builtin_str e) (parameters step) ctx) = Interrupts reason data"
  shows "execute_with_retry e (execute_step e) w step ctx
      = (Inl (HumanInterruptionRequired reason data),
         step\<lparr>retry_count := 0, status := STEP_IN_PROGRESS\<rparr>,
         (breaker_gate e (action_type step) w)
           \<lparr>tick := tick w + 2,
            invocations := invocations w @
             [(step_id step, action_type step,
               resolve_parameters (builtin_str e) (parameters step) ctx,
               Interrupts reason data)]\<rparr>)"
proof -
  from m obtain k where k: "nat (max_retries step + 1) = Suc k"
    by (metis Suc_nat_eq_nat_zadd1 add.commute)
  let ?w1 = "breaker_gate e (action_type step) w"
  let ?s1 = "step\<lparr>retry_count := int 0\<rparr>"
  have g: "tick ?w1 = tick w + 1" "invocations ?w1 = invocations w"
    using breaker_gate_facts [of e "action_type step" w] by simp_all
  have "execute_step e ?w1 ?s1 ctx
      = (Inl (HumanInterruptionRequired reason data), ?s1\<lparr>status := STEP_IN_PROGRESS\<rparr>,
         ?w1\<lparr>tick := tick ?w1 + 1,
           invocations := invocations ?w1 @
             [(step_id ?s1, action_type ?s1,
               resolve_parameters (builtin_str e) (parameters ?s1) ctx,
               Interrupts reason data)]\<rparr>)"
    using t by (intro execute_step_interrupts) (simp_all add: h g)
  then have "retry_from e (execute_step e) ctx (action_type step) (Suc k) 0 ''None'' w step
      = (Inl (HumanInterruptionRequired reason data), ?s1\<lparr>status := STEP_IN_PROGRESS\<rparr>,
         ?w1\<lparr>tick := tick ?w1 + 1,
           invocations := invocations ?w1 @
             [(step_id ?s1, action_type ?s1,
               resolve_parameters (builtin_str e) (parameters ?s1) ctx,
               Interrupts reason data)]\<rparr>)"
    by (rule retry_from_interruption)
  then show ?thesis unfolding execute_with_retry_def k by (simp add: g)
qed

lemma handle_interruption_pauses:
  "task_status (handle_interruption task reason data) = INTERRUPTED
   \<and> interrupt_reason (handle_interruption task reason data) = Some reason
   \<and> interrupt_data (handle_interruption task reason data) = Some data
   \<and> plan (handle_interruption task reason data) = plan task
   \<and> current_step_index (handle_interruption task reason data) = current_step_index task
   \<and> task_context (handle_interruption task reason data) = task_context task"
  by (simp add: handle_interruption_def transition_state_def Let_def split: prod.splits)

lemma run_current_step_interrupted:
  assumes h: "has_handler e (action_type (plan task ! current_step_index task))"
    and m: "0 \<le> max_retries (plan task ! current_step_index task)"
    and t: "tools e (tick w + 1) (action_type (plan task ! current_step_index task))
           (resolve_parameters (builtin_str e)
              (parameters (plan task ! current_step_index task)) (task_context task))
             = Interrupts reason data"
  shows "run_current_step e w task
      = Raised (HumanInterruptionRequired reason data)
          (task\<lparr>plan := (plan task)[current_step_index task :=
                   (plan task ! current_step_index task)
                     \<lparr>retry_count := 0, status := STEP_IN_PROGRESS\<rparr>]\<rparr>)
          ((breaker_gate e (action_type (plan task ! current_step_index task)) w)
            \<lparr>tick := tick w + 2,
             invocations := invocations w @
              [(step_id (plan task ! current_step_index task),
                action_type (plan task ! current_step_index task),
                resolve_parameters (builtin_str e)
                  (parameters (plan task ! current_step_index task)) (task_context task),
                Interrupts reason data)]\<rparr>)"
  unfolding run_current_step_def Let_def
  by (simp only: execute_with_retry_interrupted [OF h m t] prod.case sum.case)

lemma interrupted_step_pauses_task:
  assumes i: "current_step_index task < length (plan task)"
    and p: "status (plan task ! current_step_index task) \<noteq> STEP_COMPLETED"
    and h: "has_handler e (action_type (plan task ! current_step_index task))"
    and m: "0 \<le> max_retries (plan task ! current_step_index task)"
    and t: "tools e (tick w + 1) (action_type (plan task ! current_step_index task))
           (resolve_parameters (builtin_str e)
              (parameters (plan task ! current_step_index task)) (task_context task))
             = Interrupts reason data"
  shows "\<exists>t1 w1. resume_execution (Suc fuel) e w task = Some (t1, w1)
      \<and> task_status t1 = INTERRUPTED
      \<and> interrupt_reason t1 = Some reason \<and> interrupt_data t1 = Some data
      \<and> current_step_index t1 = current_step_index task
      \<and> status (plan t1 ! current_step_index t1) = STEP_IN_PROGRESS
      \<and> step_error (plan t1 ! current_step_index t1)
          = step_error (plan task ! current_step_index task)
      \<and> invocations w1 = invocations w @
          [(step_id (plan task ! current_step_index task),
            action_type (plan task ! current_step_index task),
            resolve_parameters (builtin_str e)
              (parameters (plan task ! current_step_index task)) (task_context task),
            Interrupts reason data)]
      \<and> filter is_retry_delay (sleeps w1) = filter is_retry_delay (sleeps w)
      \<and> failures (breaker w1) = failures (breaker w)
      \<and> last_failure_time (breaker w1) = last_failure_time (breaker w)"
proof -
  let ?st = "plan task ! current_step_index task"
  let ?t0 = "task\<lparr>plan := (plan task)[current_step_index task :=
                   ?st\<lparr>retry_count := 0, status := STEP_IN_PROGRESS\<rparr>]\<rparr>"
  let ?w1 = "(breaker_gate e (action_type ?st) w)
            \<lparr>tick := tick w + 2,
             invocations := invocations w @
              [(step_id ?st, action_type ?st,
                resolve_parameters (builtin_str e) (parameters ?st) (task_context task),
                Interrupts reason data)]\<rparr>"
  have r: "orchestrator_execute_plan (Suc fuel) e w task
             = Some (Some (HumanInterruptionRequired reason data), ?t0, ?w1)"
    using i p by (simp add: run_current_step_interrupted [OF h m t])
  have e: "resume_execution (Suc fuel) e w task
             = Some (handle_interruption ?t0 reason data, ?w1)"
    unfolding resume_execution_def r by simp
  have g: "failures (breaker ?w1) = failures (breaker w)"
      "last_failure_time (breaker ?w1) = last_failure_time (breaker w)"
      "filter is_retry_delay (sleeps ?w1) = filter is_retry_delay (sleeps w)"
    using breaker_gate_facts [of e "action_type ?st" w] by simp_all
  have hp: "plan (handle_interruption ?t0 reason data) = plan ?t0"
      "current_step_index (handle_interruption ?t0 reason data) = current_step_index ?t0"
    using handle_interruption_pauses [of ?t0 reason data] by simp_all
  show ?thesis
    apply (rule exI [of _ "handle_interruption ?t0 reason data"])
    apply (rule exI [of _ ?w1])
    using e g hp handle_interruption_pauses [of ?t0 reason data] i
    by simp
qed

text \<open>
  C1 holds for the steps that the orchestrator runs: \<open>interrupted_step_pauses_task\<close> above.
  It fails for \<^verbatim>\<open>ExecutorEngine.execute_plan\<close>: the signal that \<open>execute_step\<close> lets through is
  collected by the gather like any exception, the step is marked \<open>FAILED\<close> with the reason
  as its error, and the plan ends with the failure dict; nothing is raised to a caller.
  On the same step and handler the orchestrator pauses the task, with the step left in
  progress, one invocation of the handler and no sleep.
\<close>

theorem wave_turns_interruption_into_failure:
  "execute_plan payment_env world_init [demo_step] []
     = Some (Inr (PlanFailure
                (demo_step\<lparr>status := STEP_FAILED, step_error := Some ''payment_required''\<rparr>)
                (HumanInterruptionRequired ''payment_required'' payment_data) 0),
             [demo_step\<lparr>status := STEP_FAILED, step_error := Some ''payment_required''\<rparr>], [],
             world_init\<lparr>tick := 1,
               invocations := [(''s1'', ''search_inventory'', [],
                                Interrupts ''payment_required'' payment_data)]\<rparr>)
   \<and> map_option (\<lambda>r. (task_status (fst r), interrupt_reason (fst r), interrupt_data (fst r),
                       map status (plan (fst r)), map step_error (plan (fst r)),
                       invocations (snd r), sleeps (snd r)))
         (resume_execution (Suc 0) payment_env world_init demo_task)
       = Some (INTERRUPTED, Some ''payment_required'', Some payment_data,
               [STEP_IN_PROGRESS], [None],
               [(''s1'', ''search_inventory'', [],
                 Interrupts ''payment_required'' payment_data)], [])"
proof -
  have a: "execute_plan payment_env world_init [demo_step] []
     = Some (Inr (PlanFailure
                (demo_step\<lparr>status := STEP_FAILED, step_error := Some ''payment_required''\<rparr>)
                (HumanInterruptionRequired ''payment_required'' payment_data) 0),
             [demo_step\<lparr>status := STEP_FAILED, step_error := Some ''payment_required''\<rparr>], [],
             world_init\<lparr>tick := 1,
               invocations := [(''s1'', ''search_inventory'', [],
                                Interrupts ''payment_required'' payment_data)]\<rparr>)"
    by (simp add: execute_plan_def ready_indices_def demo_step_def demo_env_def payment_env_def
        world_init_def execute_step_def resolve_parameters_def get_or_empty_def write_back_def
        dict_update_def step_index_map_def Let_def)
  have ex: "execute_with_retry payment_env (execute_step payment_env) world_init demo_step
              (task_context demo_task)
      = (Inl (HumanInterruptionRequired ''payment_required'' payment_data),
         demo_step\<lparr>retry_count := 0, status := STEP_IN_PROGRESS\<rparr>,
         (breaker_gate payment_env (action_type demo_step) world_init)
           \<lparr>tick := tick world_init + 2,
            invocations := invocations world_init @
             [(step_id demo_step, action_type demo_step,
               resolve_parameters (builtin_str payment_env) (parameters demo_step)
                 (task_context demo_task),
               Interrupts ''payment_required'' payment_data)]\<rparr>)"
    by (rule execute_with_retry_interrupted)
       (simp_all add: payment_env_def demo_env_def demo_step_def)
  have b: "resume_execution (Suc 0) payment_env world_init demo_task
      = Some (handle_interruption
                (demo_task\<lparr>plan := [demo_step\<lparr>retry_count := 0, status := STEP_IN_PROGRESS\<rparr>]\<rparr>)
                ''payment_required'' payment_data,
              (breaker_gate payment_env (action_type demo_step) world_init)
                \<lparr>tick := tick world_init + 2,
                 invocations := invocations world_init @
                  [(step_id demo_step, action_type demo_step,
                    resolve_parameters (builtin_str payment_env) (parameters demo_step)
                      (task_context demo_task),
                    Interrupts ''payment_required'' payment_data)]\<rparr>)"
  proof -
    have p: "plan demo_task = [demo_step]" "current_step_index demo_task = 0"
      by (simp_all add: demo_task_def)
    have s: "status demo_step \<noteq> STEP_COMPLETED" by (simp add: demo_step_def)
    have "run_current_step payment_env world_init demo_task
        = Raised (HumanInterruptionRequired ''payment_required'' payment_data)
           (demo_task\<lparr>plan := [demo_step\<lparr>retry_count := 0, status := STEP_IN_PROGRESS\<rparr>]\<rparr>)
           ((breaker_gate payment_env (action_type demo_step) world_init)
                \<lparr>tick := tick world_init + 2,
                 invocations := invocations world_init @
                  [(step_id demo_step, action_type demo_step,
                    resolve_parameters (builtin_str payment_env) (parameters demo_step)
                      (task_context demo_task),
                    Interrupts ''payment_required'' payment_data)]\<rparr>)"
      unfolding run_current_step_def Let_def p
      by (simp only: nth_Cons_0 ex prod.case sum.case list_update_code)
    then show ?thesis
      unfolding resume_execution_def using p s by simp
  qed
  have c: "task_status (handle_interruption
                (demo_task\<lparr>plan := [demo_step\<lparr>retry_count := 0, status := STEP_IN_PROGRESS\<rparr>]\<rparr>)
                ''payment_required'' payment_data) = INTERRUPTED"
    by (simp add: handle_interruption_def transition_state_def demo_task_def)
  have d: "map_option (\<lambda>r. (task_status (fst r), interrupt_reason (fst r), interrupt_data (fst r),
                       map status (plan (fst r)), map step_error (plan (fst r)),
                       invocations (snd r), sleeps (snd r)))
         (resume_execution (Suc 0) payment_env world_init demo_task)
       = Some (INTERRUPTED, Some ''payment_required'', Some payment_data,
               [STEP_IN_PROGRESS], [None],
               [(''s1'', ''search_inventory'', [],
                 Interrupts ''payment_required'' payment_data)], [])"
    unfolding b
    by (simp add: handle_interruption_def transition_state_def demo_task_def demo_step_def
          breaker_gate_def is_open_def world_init_def CircuitBreaker_init_def
          resolve_parameters_def Let_def)
  from a d show ?thesis by (rule conjI)
qed

end
